theory Spec2Isabelle
  imports Main
begin

section \<open>Values of the request and of the runtime\<close>

text \<open>
  The server is an Express application (\<^verbatim>\<open>server.js\<close>) over four Mongoose models, a
  JSON-web-token library, bcrypt, multer (multipart upload), the file system and a mail
  transport. The handlers are embedded as functions from an environment, a world (the
  database collections, the upload directory, the mail outbox, the log of store
  operations) and a request to an outcome and the new world.

  A field of \<^verbatim>\<open>req.body\<close> is a string or absent (\<^verbatim>\<open>undefined\<close>): \<open>None\<close> is absent.
  JavaScript's \<^verbatim>\<open>!x\<close> is true of an absent field and of the empty string. A string is
  the list of the bytes of its UTF-8 encoding.
\<close>

type_synonym jsstr = "string option"

definition falsy :: "jsstr \<Rightarrow> bool" where
  "falsy v = (case v of None \<Rightarrow> True | Some s \<Rightarrow> s = [])"

text \<open>The string of a field that has been checked to be present (\<open>[]\<close> for an absent one).\<close>

definition str :: "jsstr \<Rightarrow> string" where
  "str v = (case v of None \<Rightarrow> [] | Some s \<Rightarrow> s)"

text \<open>
  \<^verbatim>\<open>String.prototype.toLowerCase\<close> on the ASCII letters. The bytes of a character beyond
  ASCII are left as they are: the model is exact on strings whose letters are ASCII, and
  does not follow JavaScript on the capital letters beyond ASCII, which it would lower.
\<close>

definition lower_char :: "char \<Rightarrow> char" where
  "lower_char c =
     (case map_of (zip ''ABCDEFGHIJKLMNOPQRSTUVWXYZ'' ''abcdefghijklmnopqrstuvwxyz'') c of
        None \<Rightarrow> c
      | Some l \<Rightarrow> l)"

definition toLowerCase :: "string \<Rightarrow> string" where
  "toLowerCase s = map lower_char s"

text \<open>\<^verbatim>\<open>s.includes(q)\<close>: \<open>q\<close> occurs in \<open>s\<close> as a contiguous substring.\<close>

fun starts_with :: "string \<Rightarrow> string \<Rightarrow> bool" where
  "starts_with s [] = True"
| "starts_with [] (q # qs) = False"
| "starts_with (c # cs) (q # qs) = (c = q \<and> starts_with cs qs)"

fun includes_str :: "string \<Rightarrow> string \<Rightarrow> bool" where
  "includes_str [] q = (q = [])"
| "includes_str (c # cs) q = (starts_with (c # cs) q \<or> includes_str cs q)"

text \<open>
  The decimal numeral of a number, as \<^verbatim>\<open>Date.now() + '-' + name\<close> prints it
  (\<open>digit_char\<close> is only applied to a number below ten).
\<close>

definition digit_char :: "nat \<Rightarrow> char" where
  "digit_char d = ''0123456789'' ! d"

fun dec :: "nat \<Rightarrow> string" where
  "dec n = (if n < 10 then [digit_char n] else dec (n div 10) @ [digit_char (n mod 10)])"

declare dec.simps [simp del]

text \<open>
  A JavaScript number that came from reading an integer numeral: the integer itself while
  its magnitude is at most \<open>2^53\<close> (every such integer is a double, and \<open>-0\<close> is not
  told from \<open>0\<close>); beyond that the double nearest to it, or an infinity, which the model
  does not compute (\<open>Beyond\<close>).
\<close>

datatype number = Whole int | Beyond

definition to_number :: "int \<Rightarrow> number" where
  "to_number v = (if \<bar>v\<bar> \<le> 9007199254740992 then Whole v else Beyond)"

text \<open>
  \<^verbatim>\<open>parseInt(s)\<close> with no radix: leading white space is skipped, then an optional sign,
  then \<^verbatim>\<open>0x\<close> or \<^verbatim>\<open>0X\<close> selects radix 16 (radix 10 otherwise), then the longest run of
  digits of the radix is read. \<open>None\<close> is \<^verbatim>\<open>NaN\<close> (no digit was read).

  The white space of JavaScript: the six ASCII characters, and in UTF-8 the two bytes of
  U+00A0 and the three bytes of U+1680, U+2000 to U+200A, U+2028, U+2029, U+202F, U+205F,
  U+3000 and U+FEFF.
\<close>

definition js_space :: "char \<Rightarrow> bool" where
  "js_space c = (of_char c \<in> {9, 10, 11, 12, 13, 32 :: nat})"

definition js_space2 :: "char \<Rightarrow> char \<Rightarrow> bool" where
  "js_space2 c d = (of_char c = (194::nat) \<and> of_char d = (160::nat))"

definition js_space3 :: "char \<Rightarrow> char \<Rightarrow> char \<Rightarrow> bool" where
  "js_space3 c d f =
     (let a = of_char c :: nat; b = of_char d :: nat; g = of_char f :: nat in
      (a = 225 \<and> b = 154 \<and> g = 128)
      \<or> (a = 226 \<and> b = 128 \<and> (128 \<le> g \<and> g \<le> 138 \<or> g = 168 \<or> g = 169 \<or> g = 175))
      \<or> (a = 226 \<and> b = 129 \<and> g = 159)
      \<or> (a = 227 \<and> b = 128 \<and> g = 128)
      \<or> (a = 239 \<and> b = 187 \<and> g = 191))"

fun skip_white :: "string \<Rightarrow> string" where
  "skip_white (c # d # f # rest) =
     (if js_space c then skip_white (d # f # rest)
      else if js_space2 c d then skip_white (f # rest)
      else if js_space3 c d f then skip_white rest
      else c # d # f # rest)"
| "skip_white [c, d] =
     (if js_space c then skip_white [d] else if js_space2 c d then [] else [c, d])"
| "skip_white [c] = (if js_space c then [] else [c])"
| "skip_white [] = []"

definition digit_val :: "char \<Rightarrow> nat option" where
  "digit_val c =
     (let n = of_char c :: nat in
      if 48 \<le> n \<and> n \<le> 57 then Some (n - 48)
      else if 97 \<le> n \<and> n \<le> 122 then Some (n - 87)
      else if 65 \<le> n \<and> n \<le> 90 then Some (n - 55)
      else None)"

definition is_digit :: "nat \<Rightarrow> char \<Rightarrow> bool" where
  "is_digit r c = (case digit_val c of None \<Rightarrow> False | Some d \<Rightarrow> d < r)"

definition digits_value :: "nat \<Rightarrow> string \<Rightarrow> nat" where
  "digits_value r ds = foldl (\<lambda>acc c. acc * r + (case digit_val c of None \<Rightarrow> 0 | Some d \<Rightarrow> d)) 0 ds"

definition parse_radix :: "nat \<Rightarrow> string \<Rightarrow> nat option" where
  "parse_radix r s =
     (let ds = takeWhile (is_digit r) s in if ds = [] then None else Some (digits_value r ds))"

definition parse_unsigned :: "string \<Rightarrow> nat option" where
  "parse_unsigned s =
     (case s of
        c # d # rest \<Rightarrow>
          if c = CHR ''0'' \<and> (d = CHR ''x'' \<or> d = CHR ''X'') then parse_radix 16 rest
          else parse_radix 10 s
      | _ \<Rightarrow> parse_radix 10 s)"

definition parseInt :: "string \<Rightarrow> number option" where
  "parseInt s =
     (case skip_white s of
        [] \<Rightarrow> None
      | c # cs \<Rightarrow>
          if c = CHR ''-'' then map_option (\<lambda>n. to_number (- int n)) (parse_unsigned cs)
          else if c = CHR ''+'' then map_option (\<lambda>n. to_number (int n)) (parse_unsigned cs)
          else map_option (\<lambda>n. to_number (int n)) (parse_unsigned (c # cs)))"

section \<open>Configuration and environment\<close>

text \<open>
  \<^verbatim>\<open>process.env\<close>: the variables the server reads. The environment of one request holds
  what the code takes from outside during it: the clock (\<^verbatim>\<open>Date.now()\<close>, milliseconds),
  whether the database and the mail relay answer or throw, the salt bcrypt draws, and
  \<^verbatim>\<open>new Date(s)\<close> (\<open>None\<close> is an invalid date).
\<close>

record config =
  env_JWT_SECRET :: "string option"
  env_EMAIL_USER :: "string option"
  env_ADMIN_EMAIL :: "string option"

definition JWT_SECRET :: "config \<Rightarrow> string" where
  "JWT_SECRET cfg =
     (if falsy (env_JWT_SECRET cfg) then ''your_jwt_secret_key'' else str (env_JWT_SECRET cfg))"

record env =
  now :: nat
  db_ok :: bool
  mail_ok :: bool
  salt :: nat
  new_Date :: "string \<Rightarrow> int option"

section \<open>Token service\<close>

text \<open>
  A signed token, symbolically: the payload \<^verbatim>\<open>{id, role}\<close>, the times \<^verbatim>\<open>iat\<close> and
  \<^verbatim>\<open>exp\<close> in seconds, and the key it was signed with. The signature verifies exactly
  under that key. \<^verbatim>\<open>jwt.sign(payload, key, {expiresIn: '1h'})\<close> stamps the token with the
  current second and an expiry 3600 seconds later; \<^verbatim>\<open>jwt.verify\<close> fails on a string that
  is no token, on a signature under another key, and once the clock has reached
  \<^verbatim>\<open>exp\<close>.
\<close>

type_synonym oid = nat

record jwt =
  jwt_id :: oid
  jwt_role :: string
  iat :: nat
  exp :: "nat option"
  signed_with :: string

definition clock_seconds :: "env \<Rightarrow> nat" where
  "clock_seconds e = now e div 1000"

definition jwt_sign :: "env \<Rightarrow> oid \<Rightarrow> string \<Rightarrow> string \<Rightarrow> jwt" where
  "jwt_sign e uid r key =
     \<lparr>jwt_id = uid, jwt_role = r, iat = clock_seconds e,
      exp = Some (clock_seconds e + 3600), signed_with = key\<rparr>"

text \<open>
  The \<^verbatim>\<open>Authorization\<close> header after \<^verbatim>\<open>split(' ')\<close>: a list of pieces, each the text of
  a signed token or any other text.
\<close>

datatype piece = Text string | Signed jwt

definition jwt_verify :: "env \<Rightarrow> piece \<Rightarrow> string \<Rightarrow> jwt option" where
  "jwt_verify e p key =
     (case p of
        Text s \<Rightarrow> None
      | Signed t \<Rightarrow>
          if signed_with t \<noteq> key then None
          else (case exp t of
                  None \<Rightarrow> Some t
                | Some x \<Rightarrow> if x \<le> clock_seconds e then None else Some t))"

section \<open>Data model\<close>

text \<open>
  bcrypt, symbolically: a hash is the salt together with the material hashed, the first
  72 bytes of the password; \<^verbatim>\<open>bcrypt.compare\<close> holds exactly of a password with the
  same first 72 bytes.
\<close>

datatype bhash = BCrypt nat string

definition bcrypt_hash :: "env \<Rightarrow> string \<Rightarrow> bhash" where
  "bcrypt_hash e pw = BCrypt (salt e) (take 72 pw)"

definition bcrypt_compare :: "string \<Rightarrow> bhash \<Rightarrow> bool" where
  "bcrypt_compare pw h = (case h of BCrypt s d \<Rightarrow> take 72 pw = d)"

record user =
  u_id :: oid
  u_email :: string
  u_password :: bhash
  u_role :: string

text \<open>A stored Member: the paths of \<^verbatim>\<open>memberSchema\<close>, after casting.\<close>

record member =
  m_id :: oid
  surname :: string
  otherNames :: string
  dateOfBirth :: int
  gender :: string
  occupation :: string
  qualification :: string
  localGovernmentOfOrigin :: string
  residentialAddress :: string
  phone :: string
  nextOfKin :: string
  enrollmentStatus :: string
  dateEnrollment :: int
  shortFarmHistory :: string
  refereeLgaCoordinator :: jsstr
  refereeGroupCoordinator :: jsstr
  passportPhotos :: "string list"
  cropVariety :: string
  farmingExperience :: number
  irrigationMethod :: string
  membershipStatus :: string
  location :: string
  farmSize :: string
  contact :: string

record news =
  n_id :: oid
  title :: string
  description :: string
  imageUrl :: jsstr
  videoUrl :: jsstr
  createdAt :: nat

record contact_msg =
  c_id :: oid
  c_name :: string
  c_email :: string
  c_message :: string
  c_at :: nat

record mail =
  mail_from :: jsstr
  mail_to :: jsstr
  subject :: string
  mail_text :: string

text \<open>
  The world: the four collections (in insertion order), the counter the generated ids
  come from, the regular files on disk, the mails handed to the relay, and the log of the
  operations attempted on the database.
\<close>

datatype store_op =
    UserFindOne | UserFindById | UserSave
  | MemberFind | MemberFindById | MemberSave
  | NewsFind | NewsFindById | NewsSave | NewsFindByIdAndUpdate | NewsFindByIdAndDelete
  | ContactSave

record world =
  users :: "user list"
  members :: "member list"
  news_items :: "news list"
  contacts :: "contact_msg list"
  next_id :: oid
  disk :: "string set"
  outbox :: "mail list"
  oplog :: "store_op list"

text \<open>What a rejected promise or a throw carries.\<close>

datatype exn = StoreError | CastError | ValidationError | DuplicateKey | BcryptError

text \<open>
  The outcome of a request: a response (status and JSON body; \<^verbatim>\<open>res.json\<close> alone is
  status 200), or a rejection no \<^verbatim>\<open>catch\<close> handles, for which this code sends no
  response.
\<close>

datatype json =
    Message string
  | TokenJ jwt
  | UserJ "(string \<times> string) option"
  | MembersJ "member list"
  | MemberJ member
  | NewsJ "news list"

datatype outcome = Res nat json | Unhandled exn

section \<open>Requests\<close>

text \<open>
  A request: its route, the \<^verbatim>\<open>Authorization\<close> header split at spaces (\<open>None\<close>: no such
  header), the fields of the body, the file parts of a multipart body in their order
  (those that carry a file name; the multipart parser drops the others before any
  filter), the \<^verbatim>\<open>:id\<close> of the path as an object id (\<open>None\<close>: a string that is no object
  id, which the database driver refuses to cast), and \<^verbatim>\<open>req.query.search\<close>.
\<close>

datatype route =
    PostRegister | PostLogin | GetUser
  | GetMembers | PostMembers | GetMemberById
  | GetNews | PostNews | PutNews | DeleteNews
  | PostContact

record upfile =
  fieldname :: string
  originalname :: string
  mimetype :: string
  size_bytes :: nat

record request =
  route :: route
  authorization :: "piece list option"
  body :: "string \<Rightarrow> jsstr"
  files :: "upfile list"
  params_id :: "oid option"
  query_search :: jsstr

section \<open>Database collaborator\<close>

text \<open>
  Every operation on a collection is logged when it is attempted, and throws when the
  database does not answer. A document gets its id from the counter.
\<close>

definition logged :: "store_op \<Rightarrow> world \<Rightarrow> world" where
  "logged op w = w\<lparr>oplog := oplog w @ [op]\<rparr>"

definition User_findOne :: "env \<Rightarrow> world \<Rightarrow> jsstr \<Rightarrow> (exn + user option) \<times> world" where
  "User_findOne e w em =
     (if db_ok e then Inr (find (\<lambda>u. Some (u_email u) = em) (users w)) else Inl StoreError,
      logged UserFindOne w)"

definition User_findById :: "env \<Rightarrow> world \<Rightarrow> oid \<Rightarrow> (exn + user option) \<times> world" where
  "User_findById e w i =
     (if db_ok e then Inr (find (\<lambda>u. u_id u = i) (users w)) else Inl StoreError,
      logged UserFindById w)"

text \<open>
  Modelled from the spec: the User schema (\<^verbatim>\<open>models/User\<close> is not among the sources).
  A User is \<^verbatim>\<open>{email: unique string, password: hashed string, role: enum{user, admin}}\<close>,
  with the uniqueness of the email enforced at write time.
\<close>

definition User_save :: "env \<Rightarrow> world \<Rightarrow> string \<Rightarrow> bhash \<Rightarrow> string \<Rightarrow> (exn + user) \<times> world" where
  "User_save e w em pw r =
     (let u = \<lparr>u_id = next_id w, u_email = em, u_password = pw, u_role = r\<rparr> in
      if r \<notin> set [''user'', ''admin''] then (Inl ValidationError, w)
      else if \<not> db_ok e then (Inl StoreError, logged UserSave w)
      else if em \<in> set (map u_email (users w)) then (Inl DuplicateKey, logged UserSave w)
      else (Inr u, logged UserSave (w\<lparr>users := users w @ [u], next_id := Suc (next_id w)\<rparr>)))"

definition Member_find :: "env \<Rightarrow> world \<Rightarrow> (exn + member list) \<times> world" where
  "Member_find e w = (if db_ok e then Inr (members w) else Inl StoreError, logged MemberFind w)"

definition Member_findById :: "env \<Rightarrow> world \<Rightarrow> oid option \<Rightarrow> (exn + member option) \<times> world" where
  "Member_findById e w p =
     (case p of
        None \<Rightarrow> (Inl CastError, w)
      | Some i \<Rightarrow>
          (if db_ok e then Inr (find (\<lambda>m. m_id m = i) (members w)) else Inl StoreError,
           logged MemberFindById w))"

text \<open>
  \<^verbatim>\<open>memberSchema\<close> at \<^verbatim>\<open>save()\<close>: every required string is non-empty and every
  enumerated path holds one of its values. (A date or number that could not be cast has
  no document at all: see \<open>new_Member\<close>.)
\<close>

definition Member_validate :: "member \<Rightarrow> bool" where
  "Member_validate m =
     (surname m \<noteq> [] \<and> otherNames m \<noteq> []
      \<and> gender m \<in> set [''Not specified'', ''Male'', ''Female'']
      \<and> occupation m \<noteq> [] \<and> qualification m \<noteq> [] \<and> localGovernmentOfOrigin m \<noteq> []
      \<and> residentialAddress m \<noteq> [] \<and> phone m \<noteq> [] \<and> nextOfKin m \<noteq> []
      \<and> enrollmentStatus m \<in> set [''Direct Farmer'', ''Group Farmer'']
      \<and> shortFarmHistory m \<noteq> [] \<and> cropVariety m \<noteq> []
      \<and> irrigationMethod m \<in> set [''Rainfed'', ''Drip'', ''Flood'']
      \<and> membershipStatus m \<in> set [''Active'', ''Inactive'', ''Pending'']
      \<and> location m \<noteq> [] \<and> farmSize m \<noteq> [] \<and> contact m \<noteq> [])"

definition Member_save :: "env \<Rightarrow> world \<Rightarrow> member option \<Rightarrow> (exn + member) \<times> world" where
  "Member_save e w doc =
     (case doc of
        None \<Rightarrow> (Inl ValidationError, w)
      | Some m \<Rightarrow>
          if \<not> Member_validate m then (Inl ValidationError, w)
          else if \<not> db_ok e then (Inl StoreError, logged MemberSave w)
          else (Inr m, logged MemberSave
                  (w\<lparr>members := members w @ [m], next_id := Suc (next_id w)\<rparr>)))"

text \<open>
  Modelled from the spec: the News schema (\<^verbatim>\<open>models/News\<close> is not among the sources).
  A News item is \<^verbatim>\<open>{title, description, imageUrl?, videoUrl?, createdAt: timestamp}\<close>.
  Ids are unique in a collection, so deleting by id leaves no document of that id.
\<close>

definition News_find_sorted :: "env \<Rightarrow> world \<Rightarrow> (exn + news list) \<times> world" where
  "News_find_sorted e w =
     (if db_ok e then Inr (sort_key (\<lambda>n. - int (createdAt n)) (news_items w)) else Inl StoreError,
      logged NewsFind w)"

definition News_findById :: "env \<Rightarrow> world \<Rightarrow> oid option \<Rightarrow> (exn + news option) \<times> world" where
  "News_findById e w p =
     (case p of
        None \<Rightarrow> (Inl CastError, w)
      | Some i \<Rightarrow>
          (if db_ok e then Inr (find (\<lambda>n. n_id n = i) (news_items w)) else Inl StoreError,
           logged NewsFindById w))"

definition News_save :: "env \<Rightarrow> world \<Rightarrow> string \<Rightarrow> string \<Rightarrow> jsstr \<Rightarrow> jsstr \<Rightarrow> (exn + news) \<times> world" where
  "News_save e w t d img vid =
     (let n = \<lparr>n_id = next_id w, title = t, description = d, imageUrl = img, videoUrl = vid,
                createdAt = now e\<rparr> in
      if \<not> db_ok e then (Inl StoreError, logged NewsSave w)
      else (Inr n, logged NewsSave
              (w\<lparr>news_items := news_items w @ [n], next_id := Suc (next_id w)\<rparr>)))"

text \<open>
  \<^verbatim>\<open>findByIdAndUpdate(id, newsData, {new: true})\<close>: the title and the description are
  set; a URL is set when \<^verbatim>\<open>newsData\<close> has it and kept otherwise.
\<close>

definition apply_newsData :: "string \<Rightarrow> string \<Rightarrow> jsstr \<Rightarrow> jsstr \<Rightarrow> news \<Rightarrow> news" where
  "apply_newsData t d img vid n =
     n\<lparr>title := t, description := d,
       imageUrl := (case img of None \<Rightarrow> imageUrl n | Some u \<Rightarrow> Some u),
       videoUrl := (case vid of None \<Rightarrow> videoUrl n | Some u \<Rightarrow> Some u)\<rparr>"

definition News_findByIdAndUpdate ::
  "env \<Rightarrow> world \<Rightarrow> oid option \<Rightarrow> string \<Rightarrow> string \<Rightarrow> jsstr \<Rightarrow> jsstr \<Rightarrow> (exn + news option) \<times> world" where
  "News_findByIdAndUpdate e w p t d img vid =
     (case p of
        None \<Rightarrow> (Inl CastError, w)
      | Some i \<Rightarrow>
          if \<not> db_ok e then (Inl StoreError, logged NewsFindByIdAndUpdate w)
          else (Inr (map_option (apply_newsData t d img vid) (find (\<lambda>n. n_id n = i) (news_items w))),
                logged NewsFindByIdAndUpdate
                  (w\<lparr>news_items :=
                       map (\<lambda>n. if n_id n = i then apply_newsData t d img vid n else n)
                         (news_items w)\<rparr>)))"

definition News_findByIdAndDelete :: "env \<Rightarrow> world \<Rightarrow> oid option \<Rightarrow> (exn + unit) \<times> world" where
  "News_findByIdAndDelete e w p =
     (case p of
        None \<Rightarrow> (Inl CastError, w)
      | Some i \<Rightarrow>
          if \<not> db_ok e then (Inl StoreError, logged NewsFindByIdAndDelete w)
          else (Inr (), logged NewsFindByIdAndDelete
                  (w\<lparr>news_items := filter (\<lambda>n. n_id n \<noteq> i) (news_items w)\<rparr>)))"

text \<open>
  Modelled from the spec: the Contact schema (\<^verbatim>\<open>models/Contact\<close> is not among the
  sources). A Contact is \<^verbatim>\<open>{name, email, message, timestamp}\<close>.
\<close>

definition Contact_save :: "env \<Rightarrow> world \<Rightarrow> string \<Rightarrow> string \<Rightarrow> string \<Rightarrow> (exn + contact_msg) \<times> world" where
  "Contact_save e w n em msg =
     (let c = \<lparr>c_id = next_id w, c_name = n, c_email = em, c_message = msg, c_at = now e\<rparr> in
      if \<not> db_ok e then (Inl StoreError, logged ContactSave w)
      else (Inr c, logged ContactSave
              (w\<lparr>contacts := contacts w @ [c], next_id := Suc (next_id w)\<rparr>)))"

section \<open>Mail relay\<close>

definition sendMail :: "env \<Rightarrow> world \<Rightarrow> mail \<Rightarrow> bool \<times> world" where
  "sendMail e w m = (if mail_ok e then (True, w\<lparr>outbox := outbox w @ [m]\<rparr>) else (False, w))"

section \<open>Upload intake\<close>

text \<open>
  \<^verbatim>\<open>multer({storage, limits: {fileSize: 10 * 1024 * 1024}, fileFilter}).any()\<close>. The
  file parts are taken in their order. A part the filter refuses, or one longer than
  the limit, aborts the intake with an error; multer then removes every file the request
  has written so far (the truncated one too), and the handler sees the error. Otherwise
  each part is written under \<^verbatim>\<open>public/uploads/\<close> with the name
  \<^verbatim>\<open>Date.now() + '-' + file.originalname\<close>, and \<^verbatim>\<open>req.files\<close> lists the parts with
  their names on disk.
\<close>

definition fileFilter :: "upfile \<Rightarrow> string option" where
  "fileFilter f =
     (if fieldname f = ''passportPhotos''
         \<and> mimetype f \<notin> set [''image/jpeg'', ''image/jpg'', ''image/png'']
      then Some ''Passport photo must be JPG, JPEG, or PNG''
      else None)"

definition fileSize :: nat where
  "fileSize = 10 * 1024 * 1024"

definition filename :: "env \<Rightarrow> upfile \<Rightarrow> string" where
  "filename e f = dec (now e) @ ''-'' @ originalname f"

definition disk_path :: "string \<Rightarrow> string" where
  "disk_path name = ''public/uploads/'' @ name"

text \<open>
  A stored part is its field name and its name on disk. \<open>intake\<close> returns either the
  error message with the names written before the abort, or the stored parts.
\<close>

fun intake :: "env \<Rightarrow> upfile list \<Rightarrow> (string \<times> string) list \<Rightarrow>
    (string \<times> string list) + (string \<times> string) list" where
  "intake e [] acc = Inr acc"
| "intake e (f # fs) acc =
     (case fileFilter f of
        Some msg \<Rightarrow> Inl (msg, map snd acc)
      | None \<Rightarrow>
          if fileSize < size_bytes f then Inl (''File too large'', map snd acc @ [filename e f])
          else intake e fs (acc @ [(fieldname f, filename e f)]))"

definition upload :: "env \<Rightarrow> world \<Rightarrow> upfile list \<Rightarrow> (string + (string \<times> string) list) \<times> world" where
  "upload e w fs =
     (case intake e fs [] of
        Inl (msg, written) \<Rightarrow> (Inl msg, w\<lparr>disk := disk w - set (map disk_path written)\<rparr>)
      | Inr stored \<Rightarrow> (Inr stored, w\<lparr>disk := disk w \<union> set (map (disk_path \<circ> snd) stored)\<rparr>))"

section \<open>Middleware\<close>

text \<open>
  \<^verbatim>\<open>verifyToken\<close>: the token is the second piece of the header. A missing header, a
  header of one piece and an empty second piece all give \<^verbatim>\<open>!token\<close>. On success the
  middleware sets \<^verbatim>\<open>req.userId\<close> and \<^verbatim>\<open>req.userRole\<close>, here the pair it returns.
\<close>

definition bearer :: "piece list option \<Rightarrow> piece option" where
  "bearer h =
     (case h of
        None \<Rightarrow> None
      | Some ps \<Rightarrow> if 1 < length ps \<and> ps ! 1 \<noteq> Text [] then Some (ps ! 1) else None)"

definition verifyToken :: "config \<Rightarrow> env \<Rightarrow> request \<Rightarrow> outcome + (oid \<times> string)" where
  "verifyToken cfg e rq =
     (case bearer (authorization rq) of
        None \<Rightarrow> Inl (Res 401 (Message ''Please login''))
      | Some p \<Rightarrow>
          (case jwt_verify e p (JWT_SECRET cfg) of
             None \<Rightarrow> Inl (Res 403 (Message ''Invalid session''))
           | Some decoded \<Rightarrow> Inr (jwt_id decoded, jwt_role decoded)))"

definition isAdmin :: "string \<Rightarrow> outcome option" where
  "isAdmin userRole =
     (if userRole \<noteq> ''admin'' then Some (Res 403 (Message ''Admin access required'')) else None)"

section \<open>Handlers\<close>

definition post_register :: "env \<Rightarrow> world \<Rightarrow> request \<Rightarrow> outcome \<times> world" where
  "post_register e w rq =
     (let email = body rq ''email''; password = body rq ''password'' in
      if falsy email \<or> falsy password then (Res 400 (Message ''Email and password required''), w)
      else
        (case User_findOne e w email of
           (Inl err, w1) \<Rightarrow> (Res 500 (Message ''Server error during registration''), w1)
         | (Inr (Some existingUser), w1) \<Rightarrow> (Res 400 (Message ''Email already used''), w1)
         | (Inr None, w1) \<Rightarrow>
             (case User_save e w1 (str email) (bcrypt_hash e (str password)) ''user'' of
                (Inl err, w2) \<Rightarrow> (Res 500 (Message ''Server error during registration''), w2)
              | (Inr u, w2) \<Rightarrow> (Res 201 (Message ''Registered successfully''), w2))))"

text \<open>
  \<^verbatim>\<open>POST /api/login\<close> has no \<^verbatim>\<open>try\<close>: a failing lookup, and \<^verbatim>\<open>bcrypt.compare\<close> on
  an absent password, reject the handler's promise.
\<close>

definition post_login :: "config \<Rightarrow> env \<Rightarrow> world \<Rightarrow> request \<Rightarrow> outcome \<times> world" where
  "post_login cfg e w rq =
     (let email = body rq ''email''; password = body rq ''password'' in
      case User_findOne e w email of
        (Inl err, w1) \<Rightarrow> (Unhandled err, w1)
      | (Inr None, w1) \<Rightarrow> (Res 401 (Message ''Invalid email or password''), w1)
      | (Inr (Some u), w1) \<Rightarrow>
          (case password of
             None \<Rightarrow> (Unhandled BcryptError, w1)
           | Some pw \<Rightarrow>
               if \<not> bcrypt_compare pw (u_password u)
               then (Res 401 (Message ''Invalid email or password''), w1)
               else (Res 200 (TokenJ (jwt_sign e (u_id u) (u_role u) (JWT_SECRET cfg))), w1)))"

definition get_user :: "env \<Rightarrow> world \<Rightarrow> oid \<Rightarrow> outcome \<times> world" where
  "get_user e w userId =
     (case User_findById e w userId of
        (Inl err, w1) \<Rightarrow> (Unhandled err, w1)
      | (Inr u, w1) \<Rightarrow> (Res 200 (UserJ (map_option (\<lambda>u. (u_email u, u_role u)) u)), w1))"

definition member_matches :: "string \<Rightarrow> member \<Rightarrow> bool" where
  "member_matches searchQuery m =
     (includes_str (toLowerCase (surname m @ '' '' @ otherNames m)) searchQuery
      \<or> includes_str (toLowerCase (location m)) searchQuery
      \<or> includes_str (phone m) searchQuery
      \<or> includes_str (toLowerCase (contact m)) searchQuery)"

definition get_members :: "env \<Rightarrow> world \<Rightarrow> request \<Rightarrow> outcome \<times> world" where
  "get_members e w rq =
     (let searchQuery =
            (if falsy (query_search rq) then [] else toLowerCase (str (query_search rq))) in
      case Member_find e w of
        (Inl err, w1) \<Rightarrow> (Unhandled err, w1)
      | (Inr ms, w1) \<Rightarrow>
          (Res 200 (MembersJ (if searchQuery \<noteq> [] then filter (member_matches searchQuery) ms
                               else ms)), w1))"

text \<open>
  \<^verbatim>\<open>POST /api/members\<close>. The nineteen fields the handler tests with \<^verbatim>\<open>!field\<close>, in its
  order:
\<close>

definition required_fields :: "string list" where
  "required_fields =
     [''surname'', ''otherNames'', ''dateOfBirth'', ''gender'', ''occupation'',
      ''qualification'', ''localGovernmentOfOrigin'', ''residentialAddress'', ''phone'',
      ''nextOfKin'', ''enrollmentStatus'', ''dateEnrollment'', ''shortFarmHistory'',
      ''cropVariety'', ''farmingExperience'', ''irrigationMethod'', ''location'',
      ''farmSize'', ''contact'']"

text \<open>
  \<^verbatim>\<open>new Member(memberData)\<close>: \<^verbatim>\<open>memberData\<close> takes the fields of the body, with
  \<^verbatim>\<open>new Date\<close> of the two dates and \<^verbatim>\<open>parseInt\<close> of the experience, and the URL
  \<^verbatim>\<open>/uploads/<name>\<close> of every stored part when there is one. The schema fills an absent
  \<^verbatim>\<open>membershipStatus\<close> with its default. An invalid date and \<^verbatim>\<open>NaN\<close> do not cast to the
  schema's \<^verbatim>\<open>Date\<close> and \<^verbatim>\<open>Number\<close>: the document then fails validation (\<open>None\<close>).
  Every other number casts.
\<close>

definition new_Member :: "env \<Rightarrow> (string \<Rightarrow> jsstr) \<Rightarrow> (string \<times> string) list \<Rightarrow> oid \<Rightarrow> member option" where
  "new_Member e b req_files i =
     (case (new_Date e (str (b ''dateOfBirth'')), new_Date e (str (b ''dateEnrollment'')),
            parseInt (str (b ''farmingExperience''))) of
        (Some born, Some enrolled, Some years) \<Rightarrow>
          Some \<lparr>m_id = i,
                surname = str (b ''surname''),
                otherNames = str (b ''otherNames''),
                dateOfBirth = born,
                gender = str (b ''gender''),
                occupation = str (b ''occupation''),
                qualification = str (b ''qualification''),
                localGovernmentOfOrigin = str (b ''localGovernmentOfOrigin''),
                residentialAddress = str (b ''residentialAddress''),
                phone = str (b ''phone''),
                nextOfKin = str (b ''nextOfKin''),
                enrollmentStatus = str (b ''enrollmentStatus''),
                dateEnrollment = enrolled,
                shortFarmHistory = str (b ''shortFarmHistory''),
                refereeLgaCoordinator = b ''refereeLgaCoordinator'',
                refereeGroupCoordinator = b ''refereeGroupCoordinator'',
                passportPhotos = map (\<lambda>file. ''/uploads/'' @ snd file) req_files,
                cropVariety = str (b ''cropVariety''),
                farmingExperience = years,
                irrigationMethod = str (b ''irrigationMethod''),
                membershipStatus =
                  (case b ''membershipStatus'' of None \<Rightarrow> ''Pending'' | Some st \<Rightarrow> st),
                location = str (b ''location''),
                farmSize = str (b ''farmSize''),
                contact = str (b ''contact'')\<rparr>
      | _ \<Rightarrow> None)"

definition post_members :: "env \<Rightarrow> world \<Rightarrow> request \<Rightarrow> outcome \<times> world" where
  "post_members e w rq =
     (case upload e w (files rq) of
        (Inl msg, w1) \<Rightarrow> (Res 400 (Message msg), w1)
      | (Inr req_files, w1) \<Rightarrow>
          if list_ex (\<lambda>k. falsy (body rq k)) required_fields
          then (Res 400 (Message ''All required fields must be filled''), w1)
          else
            (case Member_save e w1 (new_Member e (body rq) req_files (next_id w1)) of
               (Inl err, w2) \<Rightarrow> (Res 500 (Message ''Error saving member''), w2)
             | (Inr m, w2) \<Rightarrow> (Res 201 (MemberJ m), w2)))"

definition get_member_by_id :: "env \<Rightarrow> world \<Rightarrow> request \<Rightarrow> outcome \<times> world" where
  "get_member_by_id e w rq =
     (case Member_findById e w (params_id rq) of
        (Inl err, w1) \<Rightarrow> (Res 500 (Message ''Server error''), w1)
      | (Inr None, w1) \<Rightarrow> (Res 404 (Message ''Member not found''), w1)
      | (Inr (Some m), w1) \<Rightarrow> (Res 200 (MemberJ m), w1))"

definition get_news :: "env \<Rightarrow> world \<Rightarrow> outcome \<times> world" where
  "get_news e w =
     (case News_find_sorted e w of
        (Inl err, w1) \<Rightarrow> (Unhandled err, w1)
      | (Inr ns, w1) \<Rightarrow> (Res 200 (NewsJ ns), w1))"

text \<open>
  The \<^verbatim>\<open>forEach\<close> over \<^verbatim>\<open>req.files\<close> of both news handlers: the last part named
  \<^verbatim>\<open>image\<close> gives \<^verbatim>\<open>imageUrl\<close>, the last named \<^verbatim>\<open>video\<close> gives \<^verbatim>\<open>videoUrl\<close>.
\<close>

definition newsData_urls :: "(string \<times> string) list \<Rightarrow> jsstr \<times> jsstr" where
  "newsData_urls req_files =
     foldl (\<lambda>(img, vid) file.
              if fst file = ''image'' then (Some (''/uploads/'' @ snd file), vid)
              else if fst file = ''video'' then (img, Some (''/uploads/'' @ snd file))
              else (img, vid))
       (None, None) req_files"

definition post_news :: "env \<Rightarrow> world \<Rightarrow> request \<Rightarrow> outcome \<times> world" where
  "post_news e w rq =
     (case upload e w (files rq) of
        (Inl msg, w1) \<Rightarrow> (Res 400 (Message msg), w1)
      | (Inr req_files, w1) \<Rightarrow>
          (let t = body rq ''title''; d = body rq ''description'' in
           if falsy t \<or> falsy d then (Res 400 (Message ''Title and description required''), w1)
           else
             (case News_save e w1 (str t) (str d) (fst (newsData_urls req_files))
                     (snd (newsData_urls req_files)) of
                (Inl err, w2) \<Rightarrow> (Unhandled err, w2)
              | (Inr n, w2) \<Rightarrow> (Res 201 (Message ''News added successfully''), w2))))"

definition put_news :: "env \<Rightarrow> world \<Rightarrow> request \<Rightarrow> outcome \<times> world" where
  "put_news e w rq =
     (case upload e w (files rq) of
        (Inl msg, w1) \<Rightarrow> (Res 400 (Message msg), w1)
      | (Inr req_files, w1) \<Rightarrow>
          (let t = body rq ''title''; d = body rq ''description'' in
           if falsy t \<or> falsy d then (Res 400 (Message ''Title and description required''), w1)
           else
             (case News_findByIdAndUpdate e w1 (params_id rq) (str t) (str d)
                     (fst (newsData_urls req_files)) (snd (newsData_urls req_files)) of
                (Inl err, w2) \<Rightarrow> (Unhandled err, w2)
              | (Inr None, w2) \<Rightarrow> (Res 404 (Message ''News not found''), w2)
              | (Inr (Some n), w2) \<Rightarrow> (Res 200 (Message ''News updated successfully''), w2))))"

text \<open>
  \<^verbatim>\<open>if (fs.existsSync(path)) fs.unlinkSync(path)\<close> with \<^verbatim>\<open>path = `public${url}`\<close>, under
  \<^verbatim>\<open>if (url)\<close>.
\<close>

definition unlink_if_exists :: "jsstr \<Rightarrow> world \<Rightarrow> world" where
  "unlink_if_exists url w =
     (if falsy url then w
      else (let path = ''public'' @ str url in
            if path \<in> disk w then w\<lparr>disk := disk w - {path}\<rparr> else w))"

definition delete_news :: "env \<Rightarrow> world \<Rightarrow> request \<Rightarrow> outcome \<times> world" where
  "delete_news e w rq =
     (case News_findById e w (params_id rq) of
        (Inl err, w1) \<Rightarrow> (Res 500 (Message ''Error deleting news''), w1)
      | (Inr None, w1) \<Rightarrow> (Res 404 (Message ''News not found''), w1)
      | (Inr (Some n), w1) \<Rightarrow>
          (let w2 = unlink_if_exists (videoUrl n) (unlink_if_exists (imageUrl n) w1) in
           case News_findByIdAndDelete e w2 (params_id rq) of
             (Inl err, w3) \<Rightarrow> (Res 500 (Message ''Error deleting news''), w3)
           | (Inr u, w3) \<Rightarrow> (Res 200 (Message ''News deleted successfully''), w3)))"

definition mailOptions :: "config \<Rightarrow> string \<Rightarrow> string \<Rightarrow> string \<Rightarrow> mail" where
  "mailOptions cfg name email message =
     \<lparr>mail_from = env_EMAIL_USER cfg, mail_to = env_ADMIN_EMAIL cfg,
      subject = ''New Contact Form Submission'',
      mail_text = ''Name: '' @ name @ [CHR 0x0A] @ ''Email: '' @ email @ [CHR 0x0A]
                    @ ''Message: '' @ message\<rparr>"

definition post_contact :: "config \<Rightarrow> env \<Rightarrow> world \<Rightarrow> request \<Rightarrow> outcome \<times> world" where
  "post_contact cfg e w rq =
     (let name = body rq ''name''; email = body rq ''email''; message = body rq ''message'' in
      if falsy name \<or> falsy email \<or> falsy message
      then (Res 400 (Message ''All fields required''), w)
      else
        (case Contact_save e w (str name) (str email) (str message) of
           (Inl err, w1) \<Rightarrow> (Unhandled err, w1)
         | (Inr c, w1) \<Rightarrow>
             (case sendMail e w1 (mailOptions cfg (str name) (str email) (str message)) of
                (True, w2) \<Rightarrow> (Res 201 (Message ''Message sent successfully''), w2)
              | (False, w2) \<Rightarrow>
                  (Res 201 (Message ''Message saved, but email notification failed''), w2))))"

section \<open>Routes\<close>

text \<open>
  \<^verbatim>\<open>app.METHOD(path, verifyToken, isAdmin, handler)\<close>: each middleware either responds,
  and nothing after it runs, or calls \<^verbatim>\<open>next()\<close>.
\<close>

definition with_token ::
  "config \<Rightarrow> env \<Rightarrow> world \<Rightarrow> request \<Rightarrow> (oid \<Rightarrow> string \<Rightarrow> outcome \<times> world) \<Rightarrow> outcome \<times> world" where
  "with_token cfg e w rq next =
     (case verifyToken cfg e rq of
        Inl response \<Rightarrow> (response, w)
      | Inr (userId, userRole) \<Rightarrow> next userId userRole)"

definition with_admin ::
  "config \<Rightarrow> env \<Rightarrow> world \<Rightarrow> request \<Rightarrow> outcome \<times> world \<Rightarrow> outcome \<times> world" where
  "with_admin cfg e w rq next =
     with_token cfg e w rq
       (\<lambda>userId userRole. case isAdmin userRole of Some response \<Rightarrow> (response, w) | None \<Rightarrow> next)"

definition handle :: "config \<Rightarrow> env \<Rightarrow> world \<Rightarrow> request \<Rightarrow> outcome \<times> world" where
  "handle cfg e w rq =
     (case route rq of
        PostRegister \<Rightarrow> post_register e w rq
      | PostLogin \<Rightarrow> post_login cfg e w rq
      | GetUser \<Rightarrow> with_token cfg e w rq (\<lambda>userId userRole. get_user e w userId)
      | GetMembers \<Rightarrow> with_admin cfg e w rq (get_members e w rq)
      | PostMembers \<Rightarrow> with_admin cfg e w rq (post_members e w rq)
      | GetMemberById \<Rightarrow> with_admin cfg e w rq (get_member_by_id e w rq)
      | GetNews \<Rightarrow> get_news e w
      | PostNews \<Rightarrow> with_admin cfg e w rq (post_news e w rq)
      | PutNews \<Rightarrow> with_admin cfg e w rq (put_news e w rq)
      | DeleteNews \<Rightarrow> with_admin cfg e w rq (delete_news e w rq)
      | PostContact \<Rightarrow> post_contact cfg e w rq)"

text \<open>The routes behind \<^verbatim>\<open>verifyToken\<close>, and those behind \<^verbatim>\<open>isAdmin\<close> as well.\<close>

definition protected_routes :: "route list" where
  "protected_routes = [GetUser, GetMembers, PostMembers, GetMemberById, PostNews, PutNews, DeleteNews]"

definition admin_routes :: "route list" where
  "admin_routes = [GetMembers, PostMembers, GetMemberById, PostNews, PutNews, DeleteNews]"

text \<open>
  The server answers requests one after another, each in the environment it arrives in:
  the outcomes in order, and the world left behind.
\<close>

fun serve :: "config \<Rightarrow> world \<Rightarrow> (env \<times> request) list \<Rightarrow> outcome list \<times> world" where
  "serve cfg w [] = ([], w)"
| "serve cfg w (ev # rest) =
     (fst (handle cfg (fst ev) w (snd ev))
        # fst (serve cfg (snd (handle cfg (fst ev) w (snd ev))) rest),
      snd (serve cfg (snd (handle cfg (fst ev) w (snd ev))) rest))"

section \<open>Example data\<close>

text \<open>Concrete configurations, environments, worlds and requests the theorems are run on.\<close>

definition cfg0 :: config where
  "cfg0 = \<lparr>env_JWT_SECRET = Some ''s3cret'', env_EMAIL_USER = Some ''relay@pswfa.org'',
           env_ADMIN_EMAIL = Some ''office@pswfa.org''\<rparr>"

definition dates0 :: "string \<Rightarrow> int option" where
  "dates0 s =
     (if s = ''2001-02-03'' then Some 981158400000
      else if s = ''2020-01-01'' then Some 1577836800000
      else None)"

definition env0 :: env where
  "env0 = \<lparr>now = 5000, db_ok = True, mail_ok = True, salt = 7, new_Date = dates0\<rparr>"

definition world0 :: world where
  "world0 = \<lparr>users = [], members = [], news_items = [], contacts = [], next_id = 0,
             disk = {}, outbox = [], oplog = []\<rparr>"

definition request0 :: "route \<Rightarrow> request" where
  "request0 r = \<lparr>route = r, authorization = None, body = (\<lambda>k. None), files = [],
                 params_id = None, query_search = None\<rparr>"

definition bearer_of :: "jwt \<Rightarrow> piece list option" where
  "bearer_of t = Some [Text ''Bearer'', Signed t]"

definition user_token :: jwt where
  "user_token = jwt_sign env0 1 ''user'' ''s3cret''"

definition admin_token :: jwt where
  "admin_token = jwt_sign env0 2 ''admin'' ''s3cret''"

definition env_late :: env where
  "env_late = env0\<lparr>now := 3605000\<rparr>"

text \<open>A registration body that also asks for the role \<^verbatim>\<open>admin\<close>, and the login with it.\<close>

definition creds0 :: "string \<Rightarrow> jsstr" where
  "creds0 k =
     (if k = ''email'' then Some ''ada@farm.ng''
      else if k = ''password'' then Some ''okra''
      else if k = ''role'' then Some ''admin''
      else None)"

definition register_rq :: request where
  "register_rq = (request0 PostRegister)\<lparr>body := creds0\<rparr>"

definition login_rq :: request where
  "login_rq = (request0 PostLogin)\<lparr>body := creds0\<rparr>"

definition ada_token :: jwt where
  "ada_token = jwt_sign env0 0 ''user'' ''s3cret''"

text \<open>The world after that registration in the empty world.\<close>

definition world1 :: world where
  "world1 =
     world0\<lparr>users := [\<lparr>u_id = 0, u_email = ''ada@farm.ng'', u_password = BCrypt 7 ''okra'',
                         u_role = ''user''\<rparr>],
            next_id := 1, oplog := [UserFindOne, UserSave]\<rparr>"

text \<open>File parts, a complete member form, and the requests of an admin that carry them.\<close>

definition jpeg_photo :: upfile where
  "jpeg_photo = \<lparr>fieldname = ''passportPhotos'', originalname = ''ada.jpg'', mimetype = ''image/jpeg'', size_bytes = 40000\<rparr>"

definition pdf_photo :: upfile where
  "pdf_photo = \<lparr>fieldname = ''passportPhotos'', originalname = ''cv.pdf'', mimetype = ''application/pdf'', size_bytes = 2048\<rparr>"

definition member_form :: "string \<Rightarrow> jsstr" where
  "member_form = map_of
     [(''surname'', ''Okoro''), (''otherNames'', ''Ada''), (''dateOfBirth'', ''2001-02-03''),
      (''gender'', ''Female''), (''occupation'', ''Farmer''), (''qualification'', ''BSc''),
      (''localGovernmentOfOrigin'', ''Ikeja''), (''residentialAddress'', ''1 Farm Road''),
      (''phone'', ''0803''), (''nextOfKin'', ''Obi''), (''enrollmentStatus'', ''Direct Farmer''),
      (''dateEnrollment'', ''2020-01-01''), (''shortFarmHistory'', ''Cassava''),
      (''cropVariety'', ''Yam''), (''farmingExperience'', ''12''), (''irrigationMethod'', ''Drip''),
      (''location'', ''Lagos''), (''farmSize'', ''2ha''), (''contact'', ''ada@farm.ng'')]"

definition member_rq :: "upfile list \<Rightarrow> request" where
  "member_rq fs = (request0 PostMembers)\<lparr>authorization := bearer_of admin_token, body := member_form, files := fs\<rparr>"




text \<open>A world with one member whose phone is written in capitals, and a search for it.\<close>

definition member_ext :: member where
  "member_ext =
     \<lparr>m_id = 0, surname = ''Bello'', otherNames = ''Musa'', dateOfBirth = 981158400000,
      gender = ''Male'', occupation = ''Farmer'', qualification = ''HND'',
      localGovernmentOfOrigin = ''Dala'', residentialAddress = ''2 Mill Road'',
      phone = ''EXT 0803'', nextOfKin = ''Sani'', enrollmentStatus = ''Group Farmer'',
      dateEnrollment = 1577836800000, shortFarmHistory = ''Millet'',
      refereeLgaCoordinator = None, refereeGroupCoordinator = None, passportPhotos = [],
      cropVariety = ''Millet'', farmingExperience = Whole 9, irrigationMethod = ''Rainfed'',
      membershipStatus = ''Active'', location = ''Kano'', farmSize = ''1ha'',
      contact = ''musa@farm.ng''\<rparr>"

definition world_ext :: world where
  "world_ext = world0\<lparr>members := [member_ext], next_id := 1\<rparr>"

definition ext_rq :: request where
  "ext_rq = (request0 GetMembers)\<lparr>authorization := bearer_of admin_token, query_search := Some ''ext''\<rparr>"

text \<open>A world with two news items, one with media on disk, and a deletion by an admin.\<close>

definition harvest_item :: news where
  "harvest_item = \<lparr>n_id = 0, title = ''Harvest'', description = ''Yam harvest begins'',
     imageUrl = Some ''/uploads/4000-yam.jpg'', videoUrl = Some ''/uploads/4000-yam.mp4'', createdAt = 4000\<rparr>"

definition fair_item :: news where
  "fair_item = \<lparr>n_id = 1, title = ''Fair'', description = ''Seed fair in Kano'',
     imageUrl = None, videoUrl = None, createdAt = 4500\<rparr>"

definition world_news :: world where
  "world_news = world0\<lparr>news_items := [harvest_item, fair_item], next_id := 2,
     disk := {''public/uploads/4000-yam.jpg'', ''public/uploads/4000-yam.mp4'', ''public/uploads/4500-map.png''}\<rparr>"

definition delete_rq :: "oid \<Rightarrow> request" where
  "delete_rq i = (request0 DeleteNews)\<lparr>authorization := bearer_of admin_token, params_id := Some i\<rparr>"

text \<open>The same deletion with a path id that is no object id (as in \<^verbatim>\<open>/api/news/abc\<close>).\<close>

definition delete_malformed_rq :: request where
  "delete_malformed_rq = (request0 DeleteNews)\<lparr>authorization := bearer_of admin_token, params_id := None\<rparr>"

text \<open>The contact submission of the spec's example, and an environment whose relay is down.\<close>

definition contact_form :: "string \<Rightarrow> jsstr" where
  "contact_form = map_of [(''name'', ''A''), (''email'', ''a@b.com''), (''message'', ''hi'')]"

definition contact_rq :: request where
  "contact_rq = (request0 PostContact)\<lparr>body := contact_form\<rparr>"

definition env_relay_down :: env where
  "env_relay_down = env0\<lparr>mail_ok := False\<rparr>"

section \<open>Properties of the gates\<close>

lemma JWT_SECRET_cfg0: "JWT_SECRET cfg0 = ''s3cret''"
  by (simp add: JWT_SECRET_def cfg0_def falsy_def str_def)

lemma verifyToken_user_token:
  "authorization rq = bearer_of user_token \<Longrightarrow> verifyToken cfg0 env0 rq = Inr (1, ''user'')"
  by (simp add: verifyToken_def bearer_def bearer_of_def jwt_verify_def user_token_def
      jwt_sign_def JWT_SECRET_cfg0 clock_seconds_def env0_def)

lemma verifyToken_admin_token:
  "authorization rq = bearer_of admin_token \<Longrightarrow> now e = 5000
    \<Longrightarrow> verifyToken cfg0 e rq = Inr (2, ''admin'')"
  by (simp add: verifyToken_def bearer_def bearer_of_def jwt_verify_def admin_token_def
      jwt_sign_def JWT_SECRET_cfg0 clock_seconds_def env0_def)

lemma handle_route:
  "route rq = PostRegister \<Longrightarrow> handle cfg e w rq = post_register e w rq"
  "route rq = PostLogin \<Longrightarrow> handle cfg e w rq = post_login cfg e w rq"
  "route rq = GetUser \<Longrightarrow> handle cfg e w rq = with_token cfg e w rq (\<lambda>userId userRole. get_user e w userId)"
  "route rq = GetMembers \<Longrightarrow> handle cfg e w rq = with_admin cfg e w rq (get_members e w rq)"
  "route rq = PostMembers \<Longrightarrow> handle cfg e w rq = with_admin cfg e w rq (post_members e w rq)"
  "route rq = GetMemberById \<Longrightarrow> handle cfg e w rq = with_admin cfg e w rq (get_member_by_id e w rq)"
  "route rq = GetNews \<Longrightarrow> handle cfg e w rq = get_news e w"
  "route rq = PostNews \<Longrightarrow> handle cfg e w rq = with_admin cfg e w rq (post_news e w rq)"
  "route rq = PutNews \<Longrightarrow> handle cfg e w rq = with_admin cfg e w rq (put_news e w rq)"
  "route rq = DeleteNews \<Longrightarrow> handle cfg e w rq = with_admin cfg e w rq (delete_news e w rq)"
  "route rq = PostContact \<Longrightarrow> handle cfg e w rq = post_contact cfg e w rq"
  by (simp_all add: handle_def)

lemma creds0_simps:
  "creds0 ''email'' = Some ''ada@farm.ng''" "creds0 ''password'' = Some ''okra''"
  by (simp_all add: creds0_def)

lemma register_world0:
  "handle cfg0 env0 world0 register_rq =
     (Res 201 (Message ''Registered successfully''),
      world0\<lparr>users := [\<lparr>u_id = 0, u_email = ''ada@farm.ng'', u_password = BCrypt 7 ''okra'', u_role = ''user''\<rparr>],
             next_id := 1, oplog := [UserFindOne, UserSave]\<rparr>)"
  by (simp add: handle_route register_rq_def request0_def post_register_def creds0_simps falsy_def str_def 
      User_findOne_def User_save_def Let_def logged_def world0_def env0_def bcrypt_hash_def)

lemma login_world1:
  "handle cfg0 env0 world1 login_rq = (Res 200 (TokenJ ada_token), logged UserFindOne world1)"
  by (simp add: handle_route login_rq_def request0_def post_login_def creds0_simps User_findOne_def
      world1_def world0_def env0_def bcrypt_compare_def ada_token_def JWT_SECRET_cfg0)

text \<open>
  C1. On each of the six admin-only routes (list members, get member, create member,
  create news, update news, delete news), a request whose token verifies and carries a
  role other than \<^verbatim>\<open>admin\<close> is answered 403 by \<^verbatim>\<open>isAdmin\<close>, and the world is left as it
  was: the handler did not run, the log of store operations has no new entry, no
  collection and no file changed.
\<close>

theorem non_admin_token_forbidden:
  assumes "route rq \<in> set admin_routes"
    and "verifyToken cfg e rq = Inr (userId, userRole)"
    and "userRole \<noteq> ''admin''"
  shows "handle cfg e w rq = (Res 403 (Message ''Admin access required''), w)"
  using assms
  by (auto simp: admin_routes_def handle_def with_admin_def with_token_def isAdmin_def)

theorem non_admin_token_forbidden_witness:
  "route ((request0 DeleteNews)\<lparr>authorization := bearer_of user_token, params_id := Some 0\<rparr>)
     \<in> set admin_routes
   \<and> verifyToken cfg0 env0
       ((request0 DeleteNews)\<lparr>authorization := bearer_of user_token, params_id := Some 0\<rparr>)
     = Inr (1, ''user'')
   \<and> ''user'' \<noteq> ''admin''
   \<and> handle cfg0 env0 world0
       ((request0 DeleteNews)\<lparr>authorization := bearer_of user_token, params_id := Some 0\<rparr>)
     = (Res 403 (Message ''Admin access required''), world0)"
proof -
  let ?rq = "(request0 DeleteNews)\<lparr>authorization := bearer_of user_token, params_id := Some 0\<rparr>"
  have a: "route ?rq \<in> set admin_routes"
    by (simp add: request0_def admin_routes_def)
  have b: "verifyToken cfg0 env0 ?rq = Inr (1, ''user'')"
    by (rule verifyToken_user_token) (simp add: request0_def)
  have c: "''user'' \<noteq> ''admin''"
    by simp
  from non_admin_token_forbidden [OF a b c] a b c show ?thesis
    by blast
qed

lemma protected_reject:
  "route rq \<in> set protected_routes \<Longrightarrow> verifyToken cfg e rq = Inl r \<Longrightarrow> handle cfg e w rq = (r, w)"
  by (auto simp: protected_routes_def handle_def with_admin_def with_token_def)

lemma gate_cases:
  "(\<exists>uid. verifyToken cfg e rq = Inr (uid, ''admin'') \<and> with_admin cfg e w rq nxt = nxt)
   \<or> (with_admin cfg e w rq nxt = (Res 401 (Message ''Please login''), w))
   \<or> (with_admin cfg e w rq nxt = (Res 403 (Message ''Invalid session''), w))
   \<or> (with_admin cfg e w rq nxt = (Res 403 (Message ''Admin access required''), w))"
  by (auto simp: with_admin_def with_token_def verifyToken_def isAdmin_def split: option.splits sum.splits)

lemma gate_admin:
  "verifyToken cfg e rq = Inr (uid, ''admin'') \<Longrightarrow> with_admin cfg e w rq nxt = nxt"
  by (simp add: with_admin_def with_token_def isAdmin_def)

lemma login_token:
  assumes "post_login cfg e0 w0 rq0 = (Res 200 (TokenJ t), w1)"
  shows "iat t = now e0 div 1000 \<and> exp t = Some (now e0 div 1000 + 3600) \<and> signed_with t = JWT_SECRET cfg"
  using assms
  by (auto simp: post_login_def User_findOne_def jwt_sign_def clock_seconds_def split: option.splits if_splits)

text \<open>
  C2. On each of the seven routes behind \<^verbatim>\<open>verifyToken\<close>: a request with no bearer
  token (no header, a header of one piece, an empty second piece) is answered 401
  \<^verbatim>\<open>Please login\<close> (the spec's MissingToken); a token that is malformed, signed under
  another key or expired is answered 403 \<^verbatim>\<open>Invalid session\<close> (InvalidToken); in each
  case the world is unchanged. A token issued by a successful login is stamped with the
  second of issuance and expires 3600 seconds later, and once an hour has passed since
  the login it is answered 403 on every protected route.
\<close>

theorem token_verification:
  "(\<forall>rq::request. route rq \<in> set protected_routes \<and> bearer (authorization rq) = None
      \<longrightarrow> handle cfg e w rq = (Res 401 (Message ''Please login''), w))
   \<and> (\<forall>(rq::request) s. route rq \<in> set protected_routes \<and> bearer (authorization rq) = Some (Text s)
      \<longrightarrow> handle cfg e w rq = (Res 403 (Message ''Invalid session''), w))
   \<and> (\<forall>(rq::request) t. route rq \<in> set protected_routes \<and> bearer (authorization rq) = Some (Signed t)
        \<and> signed_with t \<noteq> JWT_SECRET cfg
      \<longrightarrow> handle cfg e w rq = (Res 403 (Message ''Invalid session''), w))
   \<and> (\<forall>(rq::request) t x. route rq \<in> set protected_routes \<and> bearer (authorization rq) = Some (Signed t)
        \<and> exp t = Some x \<and> x \<le> clock_seconds e
      \<longrightarrow> handle cfg e w rq = (Res 403 (Message ''Invalid session''), w))
   \<and> (\<forall>e0 w0 (rq0::request) t w1. route rq0 = PostLogin \<and> handle cfg e0 w0 rq0 = (Res 200 (TokenJ t), w1)
      \<longrightarrow> iat t = now e0 div 1000 \<and> exp t = Some (iat t + 3600)
          \<and> (\<forall>rq::request. route rq \<in> set protected_routes \<and> bearer (authorization rq) = Some (Signed t)
                 \<and> now e0 + 3600000 \<le> now e
               \<longrightarrow> handle cfg e w rq = (Res 403 (Message ''Invalid session''), w)))"
proof (intro conjI allI impI)
  fix rq :: request assume "route rq \<in> set protected_routes \<and> bearer (authorization rq) = None"
  then show "handle cfg e w rq = (Res 401 (Message ''Please login''), w)"
    by (intro protected_reject) (simp_all add: verifyToken_def)
next
  fix rq :: request and s assume "route rq \<in> set protected_routes \<and> bearer (authorization rq) = Some (Text s)"
  then show "handle cfg e w rq = (Res 403 (Message ''Invalid session''), w)"
    by (intro protected_reject) (simp_all add: verifyToken_def jwt_verify_def)
next
  fix rq :: request and t assume "route rq \<in> set protected_routes \<and> bearer (authorization rq) = Some (Signed t)
        \<and> signed_with t \<noteq> JWT_SECRET cfg"
  then show "handle cfg e w rq = (Res 403 (Message ''Invalid session''), w)"
    by (intro protected_reject) (simp_all add: verifyToken_def jwt_verify_def)
next
  fix rq :: request and t x assume "route rq \<in> set protected_routes \<and> bearer (authorization rq) = Some (Signed t)
        \<and> exp t = Some x \<and> x \<le> clock_seconds e"
  then show "handle cfg e w rq = (Res 403 (Message ''Invalid session''), w)"
    by (intro protected_reject) (simp_all add: verifyToken_def jwt_verify_def)
next
  fix e0 w0 and rq0 :: request and t w1
  assume a: "route rq0 = PostLogin \<and> handle cfg e0 w0 rq0 = (Res 200 (TokenJ t), w1)"
  then have "post_login cfg e0 w0 rq0 = (Res 200 (TokenJ t), w1)"
    by (auto simp: handle_def)
  then have t: "iat t = now e0 div 1000 \<and> exp t = Some (now e0 div 1000 + 3600) \<and> signed_with t = JWT_SECRET cfg"
    by (rule login_token)
  show "iat t = now e0 div 1000" by (simp add: t)
  show "exp t = Some (iat t + 3600)" by (simp add: t)
  fix rq :: request
  assume b: "route rq \<in> set protected_routes \<and> bearer (authorization rq) = Some (Signed t)
                 \<and> now e0 + 3600000 \<le> now e"
  then have "now e0 div 1000 + 3600 \<le> now e div 1000" by linarith
  with b show "handle cfg e w rq = (Res 403 (Message ''Invalid session''), w)"
    by (intro protected_reject) (simp_all add: verifyToken_def jwt_verify_def t clock_seconds_def)
qed

theorem token_verification_witness:
  "route (request0 GetUser) \<in> set protected_routes
   \<and> bearer (authorization (request0 GetUser)) = None
   \<and> handle cfg0 env_late world1 (request0 GetUser) = (Res 401 (Message ''Please login''), world1)
   \<and> route login_rq = PostLogin
   \<and> handle cfg0 env0 world1 login_rq = (Res 200 (TokenJ ada_token), logged UserFindOne world1)
   \<and> iat ada_token = 5 \<and> exp ada_token = Some 3605
   \<and> now env0 + 3600000 \<le> now env_late
   \<and> handle cfg0 env_late world1 ((request0 GetMembers)\<lparr>authorization := bearer_of ada_token\<rparr>)
       = (Res 403 (Message ''Invalid session''), world1)"
proof -
  let ?rq = "(request0 GetMembers)\<lparr>authorization := bearer_of ada_token\<rparr>"
  note t = token_verification [of cfg0 env_late world1]
  have m: "route (request0 GetUser) \<in> set protected_routes \<and> bearer (authorization (request0 GetUser)) = None"
    by (simp add: request0_def protected_routes_def bearer_def)
  with t have a: "handle cfg0 env_late world1 (request0 GetUser) = (Res 401 (Message ''Please login''), world1)"
    by blast
  have l: "route login_rq = PostLogin \<and> handle cfg0 env0 world1 login_rq = (Res 200 (TokenJ ada_token), logged UserFindOne world1)"
    by (simp add: login_world1) (simp add: login_rq_def request0_def)
  have p: "route ?rq \<in> set protected_routes \<and> bearer (authorization ?rq) = Some (Signed ada_token)
      \<and> now env0 + 3600000 \<le> now env_late"
    by (simp add: request0_def protected_routes_def bearer_def bearer_of_def env0_def env_late_def)
  from t l have "iat ada_token = now env0 div 1000 \<and> exp ada_token = Some (iat ada_token + 3600)
      \<and> (\<forall>rq::request. route rq \<in> set protected_routes \<and> bearer (authorization rq) = Some (Signed ada_token)
                 \<and> now env0 + 3600000 \<le> now env_late
               \<longrightarrow> handle cfg0 env_late world1 rq = (Res 403 (Message ''Invalid session''), world1))"
    by blast
  with p have b: "iat ada_token = 5 \<and> exp ada_token = Some 3605
     \<and> handle cfg0 env_late world1 ?rq = (Res 403 (Message ''Invalid session''), world1)"
    by (simp add: env0_def)
  from m a l p b show ?thesis by blast
qed

section \<open>The credential store\<close>

lemma users_logged [simp]: "users (logged op w) = users w"
  by (simp add: logged_def)

lemma users_upload [simp]: "users (snd (upload e w fs)) = users w"
  by (simp add: upload_def split: sum.splits prod.splits)

lemma users_with_token:
  "(\<And>i r. users (snd (nxt i r)) = users w) \<Longrightarrow> users (snd (with_token cfg e w rq nxt)) = users w"
  by (simp add: with_token_def split: sum.splits prod.splits)

lemma users_with_admin:
  "users (snd nxt) = users w \<Longrightarrow> users (snd (with_admin cfg e w rq nxt)) = users w"
  by (simp add: with_admin_def with_token_def split: sum.splits prod.splits option.splits)

lemma users_post_login [simp]: "users (snd (post_login cfg e w rq)) = users w"
  by (simp add: post_login_def User_findOne_def split: option.splits)

lemma users_get_user [simp]: "users (snd (get_user e w i)) = users w"
  by (simp add: get_user_def User_findById_def)

lemma users_get_members [simp]: "users (snd (get_members e w rq)) = users w"
  by (simp add: get_members_def Member_find_def Let_def)

lemma users_Member_save [simp]: "users (snd (Member_save e w d)) = users w"
  by (simp add: Member_save_def split: option.splits)

lemma users_post_members [simp]: "users (snd (post_members e w rq)) = users w"
proof -
  obtain r w1 where u: "upload e w (files rq) = (r, w1)" by (cases "upload e w (files rq)")
  then have "users w1 = users w" using users_upload [of e w "files rq"] by simp
  then show ?thesis
    by (cases r; cases "Member_save e w1 (new_Member e (body rq) (projr r) (next_id w1))")
       (auto simp: post_members_def u split: sum.splits dest: arg_cong [where f="\<lambda>p. users (snd p)"])
qed


lemma users_get_member_by_id [simp]: "users (snd (get_member_by_id e w rq)) = users w"
  by (simp add: get_member_by_id_def Member_findById_def split: option.splits)

lemma users_get_news [simp]: "users (snd (get_news e w)) = users w"
  by (simp add: get_news_def News_find_sorted_def)

lemma users_News_save [simp]: "users (snd (News_save e w t d i v)) = users w"
  by (simp add: News_save_def Let_def)

lemma users_News_update [simp]: "users (snd (News_findByIdAndUpdate e w p t d i v)) = users w"
  by (simp add: News_findByIdAndUpdate_def split: option.splits)

lemma users_News_delete [simp]: "users (snd (News_findByIdAndDelete e w p)) = users w"
  by (simp add: News_findByIdAndDelete_def split: option.splits)

lemma users_News_findById [simp]: "users (snd (News_findById e w p)) = users w"
  by (simp add: News_findById_def split: option.splits)

lemma users_unlink [simp]: "users (unlink_if_exists url w) = users w"
  by (simp add: unlink_if_exists_def Let_def)

lemma users_Contact_save [simp]: "users (snd (Contact_save e w n em m)) = users w"
  by (simp add: Contact_save_def Let_def)

lemma users_sendMail [simp]: "users (snd (sendMail e w m)) = users w"
  by (simp add: sendMail_def)

lemma users_post_news [simp]: "users (snd (post_news e w rq)) = users w"
proof -
  obtain r w1 where u: "upload e w (files rq) = (r, w1)" by (cases "upload e w (files rq)")
  then have w1: "users w1 = users w" using users_upload [of e w "files rq"] by simp
  show ?thesis
  proof (cases r)
    case (Inl msg) with u w1 show ?thesis by (simp add: post_news_def)
  next
    case (Inr fs)
    obtain x w2 where s: "News_save e w1 (str (body rq ''title'')) (str (body rq ''description''))
        (fst (newsData_urls fs)) (snd (newsData_urls fs)) = (x, w2)" by (meson surj_pair)
    then have "users w2 = users w1" using users_News_save by (metis snd_conv)
    with u w1 Inr s show ?thesis by (cases x) (simp_all add: post_news_def Let_def)
  qed
qed

lemma users_put_news [simp]: "users (snd (put_news e w rq)) = users w"
proof -
  obtain r w1 where u: "upload e w (files rq) = (r, w1)" by (cases "upload e w (files rq)")
  then have w1: "users w1 = users w" using users_upload [of e w "files rq"] by simp
  show ?thesis
  proof (cases r)
    case (Inl msg) with u w1 show ?thesis by (simp add: put_news_def)
  next
    case (Inr fs)
    obtain x w2 where s: "News_findByIdAndUpdate e w1 (params_id rq) (str (body rq ''title'')) (str (body rq ''description''))
        (fst (newsData_urls fs)) (snd (newsData_urls fs)) = (x, w2)" by (meson surj_pair)
    then have "users w2 = users w1" using users_News_update by (metis snd_conv)
    with u w1 Inr s show ?thesis by (cases x) (simp_all add: put_news_def Let_def split: option.splits)
  qed
qed

lemma users_delete_news [simp]: "users (snd (delete_news e w rq)) = users w"
proof -
  obtain r w1 where f: "News_findById e w (params_id rq) = (r, w1)" by (meson surj_pair)
  then have w1: "users w1 = users w" using users_News_findById by (metis snd_conv)
  show ?thesis
  proof (cases r)
    case (Inl x) with f w1 show ?thesis by (simp add: delete_news_def)
  next
    case (Inr no)
    show ?thesis
    proof (cases no)
      case None with f w1 Inr show ?thesis by (simp add: delete_news_def)
    next
      case (Some n)
      let ?w2 = "unlink_if_exists (videoUrl n) (unlink_if_exists (imageUrl n) w1)"
      obtain x w3 where d: "News_findByIdAndDelete e ?w2 (params_id rq) = (x, w3)" by (meson surj_pair)
      then have "users w3 = users ?w2" using users_News_delete by (metis snd_conv)
      with f w1 Inr Some d show ?thesis by (cases x) (simp_all add: delete_news_def Let_def)
    qed
  qed
qed

lemma users_post_contact [simp]: "users (snd (post_contact cfg e w rq)) = users w"
proof -
  let ?n = "str (body rq ''name'')" and ?em = "str (body rq ''email'')" and ?m = "str (body rq ''message'')"
  obtain x w1 where c: "Contact_save e w ?n ?em ?m = (x, w1)" by (meson surj_pair)
  then have w1: "users w1 = users w" using users_Contact_save by (metis snd_conv)
  obtain b w2 where m: "sendMail e w1 (mailOptions cfg ?n ?em ?m) = (b, w2)" by (meson surj_pair)
  then have "users w2 = users w1" using users_sendMail by (metis snd_conv)
  with c w1 m show ?thesis
    by (cases x; cases b) (simp_all add: post_contact_def Let_def)
qed

text \<open>Registration: what it leaves in the credential store.\<close>

lemma post_register_users:
  "users (snd (post_register e w rq)) = users w
   \<or> (\<exists>u. users (snd (post_register e w rq)) = users w @ [u] \<and> u_role u = ''user'')"
  by (simp add: post_register_def User_findOne_def User_save_def Let_def split: option.splits)

lemma handle_users:
  "users (snd (handle cfg e w rq)) = users w
   \<or> (\<exists>u. users (snd (handle cfg e w rq)) = users w @ [u] \<and> u_role u = ''user'')"
  by (cases "route rq") (simp_all add: handle_route post_register_users users_with_token users_with_admin)

lemma serve_users:
  "\<exists>us. users (snd (serve cfg w evs)) = users w @ us \<and> (\<forall>u \<in> set us. u_role u = ''user'')"
proof (induction evs arbitrary: w)
  case Nil
  show ?case by simp
next
  case (Cons ev evs)
  let ?w1 = "snd (handle cfg (fst ev) w (snd ev))"
  from Cons.IH [of ?w1] obtain us where
    us: "users (snd (serve cfg ?w1 evs)) = users ?w1 @ us" "\<forall>u \<in> set us. u_role u = ''user''"
    by blast
  from handle_users [of cfg "fst ev" w "snd ev"] show ?case
  proof
    assume "users ?w1 = users w"
    with us show ?thesis by auto
  next
    assume "\<exists>u. users ?w1 = users w @ [u] \<and> u_role u = ''user''"
    then obtain u where "users ?w1 = users w @ [u]" "u_role u = ''user''" by blast
    with us have "users (snd (serve cfg w (ev # evs))) = users w @ (u # us) \<and> (\<forall>v \<in> set (u # us). u_role v = ''user'')"
      by simp
    then show ?thesis by blast
  qed
qed

lemma find_registered:
  "em \<notin> set (map u_email us0) \<Longrightarrow> u_email u = em
    \<Longrightarrow> find (\<lambda>v. u_email v = em) (us0 @ u # us) = Some u"
  by (induction us0) auto

lemma find_unregistered:
  "em \<notin> set (map u_email us0) \<Longrightarrow> find (\<lambda>v. u_email v = em) us0 = None"
  by (induction us0) auto

lemma bcrypt_roundtrip: "bcrypt_compare pw (bcrypt_hash e pw)"
  by (simp add: bcrypt_compare_def bcrypt_hash_def)

lemma post_register_fresh:
  assumes "body rq ''email'' = Some em" "em \<noteq> []" "body rq ''password'' = Some pw" "pw \<noteq> []"
    and "em \<notin> set (map u_email (users w))" "db_ok e"
  shows "post_register e w rq =
     (Res 201 (Message ''Registered successfully''),
      logged UserSave ((logged UserFindOne w)
        \<lparr>users := users w @ [\<lparr>u_id = next_id w, u_email = em, u_password = bcrypt_hash e pw, u_role = ''user''\<rparr>],
         next_id := Suc (next_id w)\<rparr>))"
  using assms
  by (simp add: post_register_def falsy_def str_def User_findOne_def User_save_def Let_def
      find_unregistered logged_def)

text \<open>
  C3. A registration with an email (present, non-empty) that no stored account has and a
  non-empty password, while the database answers, is answered 201 and appends the account
  with the bcrypt hash of the password, which \<^verbatim>\<open>bcrypt.compare\<close> accepts for that
  password. After any further requests, a login with the same email and password (the
  database answering) is answered 200 with a token made at that moment: its payload is the
  id of the new account and the role \<^verbatim>\<open>user\<close>, it is stamped with the second of the
  login and expires 3600 seconds later, it is signed with the server's secret, and
  \<^verbatim>\<open>verifyToken\<close> accepts it with that id and role on any request that bears it before
  the expiry. A registration with the same email is answered 400 and stores nothing.
\<close>

theorem register_then_login:
  assumes "route rq = PostRegister"
    and "body rq ''email'' = Some em" and "em \<noteq> []"
    and "body rq ''password'' = Some pw" and "pw \<noteq> []"
    and "em \<notin> set (map u_email (users w))"
    and "db_ok e"
  shows "fst (handle cfg e w rq) = Res 201 (Message ''Registered successfully'')
    \<and> users (snd (handle cfg e w rq))
        = users w @ [\<lparr>u_id = next_id w, u_email = em, u_password = bcrypt_hash e pw, u_role = ''user''\<rparr>]
    \<and> bcrypt_compare pw (bcrypt_hash e pw)
    \<and> (\<forall>evs e2 (rq2::request).
          db_ok e2 \<and> route rq2 = PostLogin \<and> body rq2 ''email'' = Some em \<and> body rq2 ''password'' = Some pw
          \<longrightarrow> (\<exists>t. fst (handle cfg e2 (snd (serve cfg (snd (handle cfg e w rq)) evs)) rq2)
                     = Res 200 (TokenJ t)
                \<and> t = jwt_sign e2 (next_id w) ''user'' (JWT_SECRET cfg)
                \<and> jwt_id t = next_id w \<and> jwt_role t = ''user''
                \<and> iat t = now e2 div 1000 \<and> exp t = Some (now e2 div 1000 + 3600)
                \<and> signed_with t = JWT_SECRET cfg
                \<and> (\<forall>e4 (rq4::request).
                      bearer (authorization rq4) = Some (Signed t)
                      \<and> now e4 div 1000 < now e2 div 1000 + 3600
                      \<longrightarrow> verifyToken cfg e4 rq4 = Inr (next_id w, ''user''))))
    \<and> (\<forall>evs e3 (rq3::request).
          db_ok e3 \<and> route rq3 = PostRegister \<and> body rq3 ''email'' = Some em
          \<longrightarrow> (\<exists>msg. fst (handle cfg e3 (snd (serve cfg (snd (handle cfg e w rq)) evs)) rq3) = Res 400 (Message msg))
              \<and> users (snd (handle cfg e3 (snd (serve cfg (snd (handle cfg e w rq)) evs)) rq3))
                  = users (snd (serve cfg (snd (handle cfg e w rq)) evs)))"
proof -
  let ?u = "\<lparr>u_id = next_id w, u_email = em, u_password = bcrypt_hash e pw, u_role = ''user''\<rparr>"
  let ?w1 = "snd (handle cfg e w rq)"
  have reg: "handle cfg e w rq =
     (Res 201 (Message ''Registered successfully''),
      logged UserSave ((logged UserFindOne w)\<lparr>users := users w @ [?u], next_id := Suc (next_id w)\<rparr>))"
    using assms by (simp add: handle_route post_register_fresh)
  have u1: "users ?w1 = users w @ [?u]"
    by (simp add: reg logged_def)
  have later: "find (\<lambda>v. u_email v = em) (users (snd (serve cfg ?w1 evs))) = Some ?u" for evs
  proof -
    obtain us where "users (snd (serve cfg ?w1 evs)) = users ?w1 @ us"
      using serve_users [of cfg ?w1 evs] by blast
    then have "users (snd (serve cfg ?w1 evs)) = users w @ ?u # us"
      by (simp add: u1)
    then show ?thesis
      using find_registered [OF assms(6), of ?u us] by simp
  qed
  have login: "\<exists>t. fst (handle cfg e2 (snd (serve cfg ?w1 evs)) rq2) = Res 200 (TokenJ t)
                \<and> t = jwt_sign e2 (next_id w) ''user'' (JWT_SECRET cfg)
                \<and> jwt_id t = next_id w \<and> jwt_role t = ''user''
                \<and> iat t = now e2 div 1000 \<and> exp t = Some (now e2 div 1000 + 3600)
                \<and> signed_with t = JWT_SECRET cfg
                \<and> (\<forall>e4 (rq4::request).
                      bearer (authorization rq4) = Some (Signed t)
                      \<and> now e4 div 1000 < now e2 div 1000 + 3600
                      \<longrightarrow> verifyToken cfg e4 rq4 = Inr (next_id w, ''user''))"
    if "db_ok e2 \<and> route rq2 = PostLogin \<and> body rq2 ''email'' = Some em \<and> body rq2 ''password'' = Some pw"
    for evs e2 and rq2 :: request
  proof -
    have "fst (handle cfg e2 (snd (serve cfg ?w1 evs)) rq2)
        = Res 200 (TokenJ (jwt_sign e2 (next_id w) ''user'' (JWT_SECRET cfg)))"
      using that later [of evs]
      by (simp add: handle_route post_login_def User_findOne_def bcrypt_roundtrip)
    then show ?thesis
      by (intro exI [of _ "jwt_sign e2 (next_id w) ''user'' (JWT_SECRET cfg)"])
         (simp add: jwt_sign_def clock_seconds_def verifyToken_def jwt_verify_def)
  qed
  have again: "(\<exists>msg. fst (handle cfg e3 (snd (serve cfg ?w1 evs)) rq3) = Res 400 (Message msg))
              \<and> users (snd (handle cfg e3 (snd (serve cfg ?w1 evs)) rq3)) = users (snd (serve cfg ?w1 evs))"
    if "db_ok e3 \<and> route rq3 = PostRegister \<and> body rq3 ''email'' = Some em"
    for evs e3 and rq3 :: request
    using that later [of evs]
    by (simp add: handle_route post_register_def User_findOne_def Let_def logged_def)
  show ?thesis
    apply (intro conjI)
        apply (simp add: reg)
       apply (rule u1)
      apply (rule bcrypt_roundtrip)
     apply (intro allI impI)
     apply (rule login)
     apply assumption
    apply (intro allI impI)
    apply (rule again)
    apply assumption
    done
qed

theorem register_then_login_witness:
  "route register_rq = PostRegister
   \<and> body register_rq ''email'' = Some ''ada@farm.ng'' \<and> ''ada@farm.ng'' \<noteq> []
   \<and> body register_rq ''password'' = Some ''okra'' \<and> ''okra'' \<noteq> []
   \<and> ''ada@farm.ng'' \<notin> set (map u_email (users world0))
   \<and> db_ok env0
   \<and> fst (handle cfg0 env0 world0 register_rq) = Res 201 (Message ''Registered successfully'')
   \<and> users (snd (handle cfg0 env0 world0 register_rq))
       = [\<lparr>u_id = 0, u_email = ''ada@farm.ng'', u_password = BCrypt 7 ''okra'', u_role = ''user''\<rparr>]
   \<and> fst (handle cfg0 env_late (snd (handle cfg0 env0 world0 register_rq)) login_rq)
       = Res 200 (TokenJ \<lparr>jwt_id = 0, jwt_role = ''user'', iat = 3605, exp = Some 7205,
                          signed_with = ''s3cret''\<rparr>)
   \<and> verifyToken cfg0 env_late
       ((request0 GetUser)\<lparr>authorization :=
          bearer_of \<lparr>jwt_id = 0, jwt_role = ''user'', iat = 3605, exp = Some 7205,
                      signed_with = ''s3cret''\<rparr>\<rparr>)
       = Inr (0, ''user'')
   \<and> (\<exists>msg. fst (handle cfg0 env_late (snd (handle cfg0 env0 world0 register_rq)) register_rq)
         = Res 400 (Message msg))"
proof -
  have h: "route register_rq = PostRegister"
    "body register_rq ''email'' = Some ''ada@farm.ng''" "''ada@farm.ng'' \<noteq> []"
    "body register_rq ''password'' = Some ''okra''" "''okra'' \<noteq> []"
    "''ada@farm.ng'' \<notin> set (map u_email (users world0))"
    "db_ok env0"
    by (simp_all add: register_rq_def request0_def creds0_simps world0_def env0_def)
  have l: "db_ok env_late \<and> route login_rq = PostLogin \<and> body login_rq ''email'' = Some ''ada@farm.ng''
      \<and> body login_rq ''password'' = Some ''okra''"
    by (simp add: login_rq_def request0_def creds0_simps env_late_def env0_def)
  have r: "db_ok env_late \<and> route register_rq = PostRegister \<and> body register_rq ''email'' = Some ''ada@farm.ng''"
    by (simp add: register_rq_def request0_def creds0_simps env_late_def env0_def)
  note t = register_then_login [OF h, of cfg0]
  from t have a: "fst (handle cfg0 env0 world0 register_rq) = Res 201 (Message ''Registered successfully'')"
    by blast
  from t have b: "users (snd (handle cfg0 env0 world0 register_rq))
       = [\<lparr>u_id = 0, u_email = ''ada@farm.ng'', u_password = BCrypt 7 ''okra'', u_role = ''user''\<rparr>]"
    by (simp add: world0_def bcrypt_hash_def env0_def)
  let ?tok = "\<lparr>jwt_id = 0, jwt_role = ''user'', iat = 3605, exp = Some 7205, signed_with = ''s3cret''\<rparr>"
  let ?bear = "(request0 GetUser)\<lparr>authorization := bearer_of ?tok\<rparr>"
  note lg = t [THEN conjunct2, THEN conjunct2, THEN conjunct2, THEN conjunct1,
      rule_format, OF l, of "[]"]
  from lg obtain tk where tk:
    "fst (handle cfg0 env_late (snd (serve cfg0 (snd (handle cfg0 env0 world0 register_rq)) [])) login_rq)
       = Res 200 (TokenJ tk)"
    "jwt_id tk = next_id world0" "jwt_role tk = ''user''"
    "iat tk = now env_late div 1000" "exp tk = Some (now env_late div 1000 + 3600)"
    "signed_with tk = JWT_SECRET cfg0"
    "\<forall>e4 (rq4::request).
        bearer (authorization rq4) = Some (Signed tk) \<and> now e4 div 1000 < now env_late div 1000 + 3600
        \<longrightarrow> verifyToken cfg0 e4 rq4 = Inr (next_id world0, ''user'')"
    by (elim exE conjE) (rule that)
  have eq: "tk = ?tok"
    using tk(2-6) by (cases tk) (simp add: world0_def env_late_def env0_def JWT_SECRET_cfg0)
  have c: "fst (handle cfg0 env_late (snd (handle cfg0 env0 world0 register_rq)) login_rq)
       = Res 200 (TokenJ ?tok)"
    using tk(1) by (simp add: eq)
  have "bearer (authorization ?bear) = Some (Signed tk) \<and> now env_late div 1000 < now env_late div 1000 + 3600"
    by (simp add: eq request0_def bearer_of_def bearer_def)
  with tk(7) have "verifyToken cfg0 env_late ?bear = Inr (next_id world0, ''user'')"
    by (elim allE impE) assumption+
  then have v: "verifyToken cfg0 env_late ?bear = Inr (0, ''user'')"
    by (simp add: world0_def)
  from t have "\<forall>evs e3 (rq3::request).
          db_ok e3 \<and> route rq3 = PostRegister \<and> body rq3 ''email'' = Some ''ada@farm.ng''
          \<longrightarrow> (\<exists>msg. fst (handle cfg0 e3 (snd (serve cfg0 (snd (handle cfg0 env0 world0 register_rq)) evs)) rq3) = Res 400 (Message msg))
              \<and> users (snd (handle cfg0 e3 (snd (serve cfg0 (snd (handle cfg0 env0 world0 register_rq)) evs)) rq3))
                  = users (snd (serve cfg0 (snd (handle cfg0 env0 world0 register_rq)) evs))"
    by blast
  from this [rule_format, of env_late register_rq "[]"] r
  have d: "\<exists>msg. fst (handle cfg0 env_late (snd (handle cfg0 env0 world0 register_rq)) register_rq)
         = Res 400 (Message msg)"
    by simp
  show ?thesis
    by (intro conjI h a b c v d)
qed

section \<open>Roles of issued tokens\<close>

lemma no_token_with_token:
  "(\<And>i r. fst (nxt i r) \<noteq> Res s (TokenJ t)) \<Longrightarrow> fst (with_token cfg e w rq nxt) \<noteq> Res s (TokenJ t)"
  by (auto simp: with_token_def verifyToken_def split: sum.splits prod.splits option.splits)

lemma no_token_with_admin:
  "fst nxt \<noteq> Res s (TokenJ t) \<Longrightarrow> fst (with_admin cfg e w rq nxt) \<noteq> Res s (TokenJ t)"
  unfolding with_admin_def
  by (rule no_token_with_token) (simp add: isAdmin_def)

lemma no_token_post_register: "fst (post_register e w rq) \<noteq> Res s (TokenJ t)"
  by (simp add: post_register_def Let_def split: prod.splits sum.splits option.splits)

lemma no_token_get_user: "fst (get_user e w i) \<noteq> Res s (TokenJ t)"
  by (simp add: get_user_def split: prod.splits sum.splits)

lemma no_token_get_members: "fst (get_members e w rq) \<noteq> Res s (TokenJ t)"
  by (simp add: get_members_def Let_def split: prod.splits sum.splits)

lemma no_token_post_members: "fst (post_members e w rq) \<noteq> Res s (TokenJ t)"
  by (simp add: post_members_def split: prod.splits sum.splits)

lemma no_token_get_member_by_id: "fst (get_member_by_id e w rq) \<noteq> Res s (TokenJ t)"
  by (simp add: get_member_by_id_def split: prod.splits sum.splits option.splits)

lemma no_token_get_news: "fst (get_news e w) \<noteq> Res s (TokenJ t)"
  by (simp add: get_news_def split: prod.splits sum.splits)

lemma no_token_post_news: "fst (post_news e w rq) \<noteq> Res s (TokenJ t)"
  by (simp add: post_news_def Let_def split: prod.splits sum.splits)

lemma no_token_put_news: "fst (put_news e w rq) \<noteq> Res s (TokenJ t)"
  by (simp add: put_news_def Let_def split: prod.splits sum.splits option.splits)

lemma no_token_delete_news: "fst (delete_news e w rq) \<noteq> Res s (TokenJ t)"
  by (simp add: delete_news_def Let_def split: prod.splits sum.splits option.splits)

lemma no_token_post_contact: "fst (post_contact cfg e w rq) \<noteq> Res s (TokenJ t)"
  by (simp add: post_contact_def Let_def split: prod.splits sum.splits bool.splits)

lemma post_login_token_role:
  "fst (post_login cfg e w rq) = Res s (TokenJ t) \<Longrightarrow> jwt_role t \<in> u_role ` set (users w)"
  by (auto simp: post_login_def User_findOne_def jwt_sign_def find_Some_iff split: option.splits if_splits)

lemma handle_token_role:
  "fst (handle cfg e w rq) = Res s (TokenJ t) \<Longrightarrow> jwt_role t \<in> u_role ` set (users w)"
  by (cases "route rq")
     (simp_all add: handle_route post_login_token_role no_token_post_register no_token_with_token
        no_token_with_admin no_token_get_user no_token_get_members no_token_post_members
        no_token_get_member_by_id no_token_get_news no_token_post_news no_token_put_news
        no_token_delete_news no_token_post_contact)

lemma serve_token_role:
  "Res s (TokenJ t) \<in> set (fst (serve cfg w evs))
    \<Longrightarrow> jwt_role t = ''user'' \<or> jwt_role t \<in> u_role ` set (users w)"
proof (induction evs arbitrary: w)
  case Nil
  then show ?case by simp
next
  case (Cons ev evs)
  let ?w1 = "snd (handle cfg (fst ev) w (snd ev))"
  from Cons.prems have "fst (handle cfg (fst ev) w (snd ev)) = Res s (TokenJ t)
      \<or> Res s (TokenJ t) \<in> set (fst (serve cfg ?w1 evs))"
    by auto
  then show ?case
  proof
    assume "fst (handle cfg (fst ev) w (snd ev)) = Res s (TokenJ t)"
    then show ?thesis using handle_token_role by blast
  next
    assume "Res s (TokenJ t) \<in> set (fst (serve cfg ?w1 evs))"
    then have r: "jwt_role t = ''user'' \<or> jwt_role t \<in> u_role ` set (users ?w1)"
      by (rule Cons.IH)
    from handle_users [of cfg "fst ev" w "snd ev"] r show ?thesis
      by auto
  qed
qed

lemma admin_gate_rejects:
  assumes "route rq \<in> set admin_routes" and "bearer (authorization rq) = Some (Signed t)"
    and "jwt_role t \<noteq> ''admin''"
  shows "snd (handle cfg e w rq) = w
    \<and> (fst (handle cfg e w rq) = Res 403 (Message ''Invalid session'')
       \<or> fst (handle cfg e w rq) = Res 403 (Message ''Admin access required''))"
  using assms
  by (auto simp: admin_routes_def handle_route with_admin_def with_token_def verifyToken_def
      jwt_verify_def isAdmin_def split: option.splits if_splits)

text \<open>
  C9. A registration leaves the stored accounts as they were or appends one account, whose
  role is \<^verbatim>\<open>user\<close>, whatever the request holds. Over any sequence of requests from
  any world, the role of every token issued is \<^verbatim>\<open>user\<close> or the role of an account the
  world held at the start. So from a world that holds no \<^verbatim>\<open>admin\<close> account, no sequence
  of requests (registrations and logins among them) yields a token with role
  \<^verbatim>\<open>admin\<close>: presented on any admin-only route, at any time and in any world, such a
  token is answered 403 and the world is left as it was.
\<close>

theorem register_never_admin:
  "(\<forall>e w (rq::request). route rq = PostRegister \<longrightarrow>
       users (snd (handle cfg e w rq)) = users w
       \<or> (\<exists>u. users (snd (handle cfg e w rq)) = users w @ [u] \<and> u_role u = ''user''))
   \<and> (\<forall>w evs t. Res 200 (TokenJ t) \<in> set (fst (serve cfg w evs))
        \<longrightarrow> jwt_role t = ''user'' \<or> jwt_role t \<in> u_role ` set (users w))
   \<and> (\<forall>w evs t. Res 200 (TokenJ t) \<in> set (fst (serve cfg w evs))
          \<and> (\<forall>u \<in> set (users w). u_role u \<noteq> ''admin'')
        \<longrightarrow> jwt_role t \<noteq> ''admin''
          \<and> (\<forall>e' w' (rq'::request).
                route rq' \<in> set admin_routes \<and> bearer (authorization rq') = Some (Signed t)
                \<longrightarrow> snd (handle cfg e' w' rq') = w'
                   \<and> (fst (handle cfg e' w' rq') = Res 403 (Message ''Invalid session'')
                      \<or> fst (handle cfg e' w' rq') = Res 403 (Message ''Admin access required''))))"
proof (intro conjI allI impI)
  fix e w and rq :: request
  assume "route rq = PostRegister"
  then show "users (snd (handle cfg e w rq)) = users w
       \<or> (\<exists>u. users (snd (handle cfg e w rq)) = users w @ [u] \<and> u_role u = ''user'')"
    by (simp add: handle_route post_register_users)
next
  fix w evs t
  assume "Res 200 (TokenJ t) \<in> set (fst (serve cfg w evs))"
  then show "jwt_role t = ''user'' \<or> jwt_role t \<in> u_role ` set (users w)"
    by (rule serve_token_role)
next
  fix w evs t
  assume a: "Res 200 (TokenJ t) \<in> set (fst (serve cfg w evs))
          \<and> (\<forall>u \<in> set (users w). u_role u \<noteq> ''admin'')"
  then have "jwt_role t = ''user'' \<or> jwt_role t \<in> u_role ` set (users w)"
    using serve_token_role by blast
  with a show r: "jwt_role t \<noteq> ''admin''"
    by auto
  fix e' w' and rq' :: request
  assume b: "route rq' \<in> set admin_routes \<and> bearer (authorization rq') = Some (Signed t)"
  with r have c: "snd (handle cfg e' w' rq') = w'
    \<and> (fst (handle cfg e' w' rq') = Res 403 (Message ''Invalid session'')
       \<or> fst (handle cfg e' w' rq') = Res 403 (Message ''Admin access required''))"
    using admin_gate_rejects by blast
  from c show "snd (handle cfg e' w' rq') = w'" by blast
  from c show "fst (handle cfg e' w' rq') = Res 403 (Message ''Invalid session'')
       \<or> fst (handle cfg e' w' rq') = Res 403 (Message ''Admin access required'')" by blast
qed

lemma serve_register_login:
  "fst (serve cfg0 world0 [(env0, register_rq), (env0, login_rq)])
     = [Res 201 (Message ''Registered successfully''), Res 200 (TokenJ ada_token)]"
proof -
  have "handle cfg0 env0 world0 register_rq = (Res 201 (Message ''Registered successfully''), world1)"
    by (simp add: register_world0 world1_def)
  then show ?thesis
    by (simp add: login_world1)
qed

theorem register_never_admin_witness:
  "body register_rq ''role'' = Some ''admin''
   \<and> Res 200 (TokenJ ada_token) \<in> set (fst (serve cfg0 world0 [(env0, register_rq), (env0, login_rq)]))
   \<and> users world0 = []
   \<and> jwt_role ada_token \<noteq> ''admin''
   \<and> handle cfg0 env0 world1 ((request0 PostNews)\<lparr>authorization := bearer_of ada_token\<rparr>)
       = (Res 403 (Message ''Admin access required''), world1)"
proof -
  let ?rq = "(request0 PostNews)\<lparr>authorization := bearer_of ada_token\<rparr>"
  have r: "body register_rq ''role'' = Some ''admin''"
    by (simp add: register_rq_def request0_def creds0_def)
  have h: "Res 200 (TokenJ ada_token) \<in> set (fst (serve cfg0 world0 [(env0, register_rq), (env0, login_rq)]))
      \<and> (\<forall>u \<in> set (users world0). u_role u \<noteq> ''admin'')"
  proof
    show "Res 200 (TokenJ ada_token) \<in> set (fst (serve cfg0 world0 [(env0, register_rq), (env0, login_rq)]))"
      by (simp only: serve_register_login) simp
    show "\<forall>u \<in> set (users world0). u_role u \<noteq> ''admin''"
      by (simp add: world0_def)
  qed
  have u: "users world0 = []" by (simp add: world0_def)
  have g: "route ?rq \<in> set admin_routes \<and> bearer (authorization ?rq) = Some (Signed ada_token)"
    by (simp add: request0_def admin_routes_def bearer_def bearer_of_def)
  from register_never_admin [of cfg0] h
  have n: "jwt_role ada_token \<noteq> ''admin''
          \<and> (\<forall>e' w' (rq'::request).
                route rq' \<in> set admin_routes \<and> bearer (authorization rq') = Some (Signed ada_token)
                \<longrightarrow> snd (handle cfg0 e' w' rq') = w'
                   \<and> (fst (handle cfg0 e' w' rq') = Res 403 (Message ''Invalid session'')
                      \<or> fst (handle cfg0 e' w' rq') = Res 403 (Message ''Admin access required'')))"
    by blast
  with g have s: "snd (handle cfg0 env0 world1 ?rq) = world1
       \<and> (fst (handle cfg0 env0 world1 ?rq) = Res 403 (Message ''Invalid session'')
          \<or> fst (handle cfg0 env0 world1 ?rq) = Res 403 (Message ''Admin access required''))"
    by blast
  have v: "verifyToken cfg0 env0 ?rq = Inr (0, ''user'')"
    by (simp add: verifyToken_def bearer_def bearer_of_def request0_def jwt_verify_def ada_token_def
      jwt_sign_def JWT_SECRET_cfg0 clock_seconds_def env0_def)
  have p: "route ?rq = PostNews"
    by (simp add: request0_def)
  have "fst (handle cfg0 env0 world1 ?rq) \<noteq> Res 403 (Message ''Invalid session'')"
    by (simp add: handle_route(8) [OF p] with_admin_def with_token_def v isAdmin_def)
  with s have "handle cfg0 env0 world1 ?rq = (Res 403 (Message ''Admin access required''), world1)"
    by (metis prod.collapse)
  with r h u n show ?thesis by blast
qed

section \<open>Properties of the upload intake\<close>

lemma intake_refused:
  "f \<in> set fs \<Longrightarrow> fileFilter f \<noteq> None \<Longrightarrow> \<exists>msg written. intake e fs acc = Inl (msg, written)"
proof (induction fs arbitrary: acc)
  case Nil
  then show ?case by simp
next
  case (Cons g fs)
  show ?case
  proof (cases "fileFilter g")
    case (Some msg)
    then show ?thesis by simp
  next
    case None
    with Cons.prems have "f \<in> set fs" by auto
    from Cons.IH [OF this Cons.prems(2)] None show ?thesis by simp
  qed
qed


lemma upload_refused:
  "intake e fs [] = Inl (msg, written)
   \<Longrightarrow> upload e w fs = (Inl msg, w\<lparr>disk := disk w - set (map disk_path written)\<rparr>)"
  by (simp add: upload_def)

lemma post_members_refused:
  "intake e (files rq) [] = Inl (msg, written)
   \<Longrightarrow> post_members e w rq = (Res 400 (Message msg), w\<lparr>disk := disk w - set (map disk_path written)\<rparr>)"
  by (simp add: post_members_def upload_refused)

lemma dec_5000: "dec 5000 = ''5000''"
  by (simp add: dec.simps digit_char_def)




lemma member_rq_simps:
  "route (member_rq fs) = PostMembers" "body (member_rq fs) = member_form" "files (member_rq fs) = fs"
  "authorization (member_rq fs) = bearer_of admin_token"
  by (simp_all add: member_rq_def request0_def)

lemma member_rq_admin: "verifyToken cfg0 env0 (member_rq fs) = Inr (2, ''admin'')"
  by (rule verifyToken_admin_token) (simp_all add: member_rq_simps env0_def)




lemma intake_jpeg_pdf:
  "intake env0 [jpeg_photo, pdf_photo] [] = Inl (''Passport photo must be JPG, JPEG, or PNG'', [''5000-ada.jpg''])"
  by (simp add: fileFilter_def jpeg_photo_def pdf_photo_def fileSize_def filename_def env0_def dec_5000)


text \<open>
  What a refused photo does to a create-member request, whatever the gates decide: nothing
  is persisted and the upload directory gains no file; behind the gates the answer is 400,
  before them 401 or 403.
\<close>

lemma bad_photo_any_request:
  assumes "route rq = PostMembers"
    and "f \<in> set (files rq)"
    and "fieldname f = ''passportPhotos''"
    and "mimetype f \<notin> set [''image/jpeg'', ''image/jpg'', ''image/png'']"
  shows "members (snd (handle cfg e w rq)) = members w
    \<and> oplog (snd (handle cfg e w rq)) = oplog w
    \<and> disk (snd (handle cfg e w rq)) \<subseteq> disk w
    \<and> ((\<exists>uid. verifyToken cfg e rq = Inr (uid, ''admin''))
        \<longrightarrow> (\<exists>msg written. intake e (files rq) [] = Inl (msg, written)
              \<and> fst (handle cfg e w rq) = Res 400 (Message msg)
              \<and> disk (snd (handle cfg e w rq)) = disk w - set (map disk_path written)))
    \<and> (\<not> (\<exists>uid. verifyToken cfg e rq = Inr (uid, ''admin''))
        \<longrightarrow> snd (handle cfg e w rq) = w
            \<and> (\<exists>msg. fst (handle cfg e w rq) = Res 401 (Message msg)
                    \<or> fst (handle cfg e w rq) = Res 403 (Message msg)))"
proof -
  have "fileFilter f \<noteq> None"
    using assms(3,4) by (simp add: fileFilter_def)
  with assms(2) obtain msg written where i: "intake e (files rq) [] = Inl (msg, written)"
    using intake_refused by blast
  let ?w' = "w\<lparr>disk := disk w - set (map disk_path written)\<rparr>"
  have pm: "post_members e w rq = (Res 400 (Message msg), ?w')"
    using i by (rule post_members_refused)
  have h: "handle cfg e w rq = with_admin cfg e w rq (post_members e w rq)"
    using assms(1) by (simp add: handle_route)
  from gate_cases [of cfg e rq w "post_members e w rq"]
  consider (admin) uid where "verifyToken cfg e rq = Inr (uid, ''admin'')" "handle cfg e w rq = (Res 400 (Message msg), ?w')"
    | (rejected) m where "\<not> (\<exists>uid. verifyToken cfg e rq = Inr (uid, ''admin''))"
        "handle cfg e w rq = (Res 401 (Message m), w) \<or> handle cfg e w rq = (Res 403 (Message m), w)"
    unfolding h pm
    by (cases "\<exists>uid. verifyToken cfg e rq = Inr (uid, ''admin'')")
       (auto simp: gate_admin with_admin_def with_token_def isAdmin_def split: sum.splits)
  then show ?thesis
  proof cases
    case admin
    then show ?thesis using i by auto
  next
    case rejected
    then show ?thesis by auto
  qed
qed

text \<open>
  C4. Take a create-member request that passed both gates (the route is for admins) and
  has a file part named \<^verbatim>\<open>passportPhotos\<close> whose content type is none of
  \<^verbatim>\<open>image/jpeg\<close>, \<^verbatim>\<open>image/jpg\<close>, \<^verbatim>\<open>image/png\<close>. The upload aborts and the answer is 400
  with the upload's message; no Member is persisted and the store is not even asked; every
  file the request had written is removed again, so none of them is on disk afterwards
  and the upload directory has gained no file.
\<close>

theorem bad_photo_rejected:
  assumes "route rq = PostMembers"
    and "verifyToken cfg e rq = Inr (uid, ''admin'')"
    and "f \<in> set (files rq)"
    and "fieldname f = ''passportPhotos''"
    and "mimetype f \<notin> set [''image/jpeg'', ''image/jpg'', ''image/png'']"
  shows "(\<exists>msg. fst (handle cfg e w rq) = Res 400 (Message msg))
    \<and> members (snd (handle cfg e w rq)) = members w
    \<and> oplog (snd (handle cfg e w rq)) = oplog w
    \<and> disk (snd (handle cfg e w rq)) \<subseteq> disk w
    \<and> (\<exists>msg written. intake e (files rq) [] = Inl (msg, written)
          \<and> fst (handle cfg e w rq) = Res 400 (Message msg)
          \<and> disk (snd (handle cfg e w rq)) = disk w - set (map disk_path written)
          \<and> (\<forall>name \<in> set written. disk_path name \<notin> disk (snd (handle cfg e w rq))))"
proof -
  note g = bad_photo_any_request [OF assms(1,3,4,5), where cfg = cfg and e = e and w = w]
  have ex: "\<exists>uid. verifyToken cfg e rq = Inr (uid, ''admin'')"
    by (rule exI [of _ uid]) (rule assms(2))
  have "\<exists>msg written. intake e (files rq) [] = Inl (msg, written)
              \<and> fst (handle cfg e w rq) = Res 400 (Message msg)
              \<and> disk (snd (handle cfg e w rq)) = disk w - set (map disk_path written)"
    by (rule g [THEN conjunct2, THEN conjunct2, THEN conjunct2, THEN conjunct1, THEN mp, OF ex])
  then obtain msg written where x: "intake e (files rq) [] = Inl (msg, written)"
      "fst (handle cfg e w rq) = Res 400 (Message msg)"
      "disk (snd (handle cfg e w rq)) = disk w - set (map disk_path written)"
    by (elim exE conjE) (rule that)
  have gone: "\<forall>name \<in> set written. disk_path name \<notin> disk (snd (handle cfg e w rq))"
    by (simp add: x(3))
  have a: "\<exists>msg. fst (handle cfg e w rq) = Res 400 (Message msg)"
    by (rule exI [of _ msg]) (rule x(2))
  have b: "\<exists>msg written. intake e (files rq) [] = Inl (msg, written)
          \<and> fst (handle cfg e w rq) = Res 400 (Message msg)
          \<and> disk (snd (handle cfg e w rq)) = disk w - set (map disk_path written)
          \<and> (\<forall>name \<in> set written. disk_path name \<notin> disk (snd (handle cfg e w rq)))"
    by (intro exI [of _ msg] exI [of _ written] conjI x gone)
  show ?thesis
    by (intro conjI a b g [THEN conjunct1] g [THEN conjunct2, THEN conjunct1]
        g [THEN conjunct2, THEN conjunct2, THEN conjunct1])
qed

theorem bad_photo_rejected_witness:
  "route (member_rq [jpeg_photo, pdf_photo]) = PostMembers
   \<and> pdf_photo \<in> set (files (member_rq [jpeg_photo, pdf_photo]))
   \<and> fieldname pdf_photo = ''passportPhotos''
   \<and> mimetype pdf_photo \<notin> set [''image/jpeg'', ''image/jpg'', ''image/png'']
   \<and> verifyToken cfg0 env0 (member_rq [jpeg_photo, pdf_photo]) = Inr (2, ''admin'')
   \<and> fst (handle cfg0 env0 world0 (member_rq [jpeg_photo, pdf_photo]))
       = Res 400 (Message ''Passport photo must be JPG, JPEG, or PNG'')
   \<and> members (snd (handle cfg0 env0 world0 (member_rq [jpeg_photo, pdf_photo]))) = []
   \<and> ''public/uploads/5000-ada.jpg''
       \<notin> disk (snd (handle cfg0 env0 world0 (member_rq [jpeg_photo, pdf_photo])))
   \<and> disk (snd (handle cfg0 env0 world0 (member_rq [jpeg_photo, pdf_photo]))) = {}"
proof -
  let ?rq = "member_rq [jpeg_photo, pdf_photo]"
  have h1: "route ?rq = PostMembers" by (simp add: member_rq_simps)
  have h2: "pdf_photo \<in> set (files ?rq)" by (simp add: member_rq_simps)
  have h3: "fieldname pdf_photo = ''passportPhotos''" by (simp add: pdf_photo_def)
  have h4: "mimetype pdf_photo \<notin> set [''image/jpeg'', ''image/jpg'', ''image/png'']"
    by (simp add: pdf_photo_def)
  have h5: "verifyToken cfg0 env0 ?rq = Inr (2, ''admin'')" by (rule member_rq_admin)
  note t = bad_photo_rejected [OF h1 h5 h2 h3 h4, where w = world0]
  have i: "intake env0 (files ?rq) [] = Inl (''Passport photo must be JPG, JPEG, or PNG'', [''5000-ada.jpg''])"
    by (simp only: member_rq_simps intake_jpeg_pdf)
  have "\<exists>msg written. intake env0 (files ?rq) [] = Inl (msg, written)
          \<and> fst (handle cfg0 env0 world0 ?rq) = Res 400 (Message msg)
          \<and> disk (snd (handle cfg0 env0 world0 ?rq)) = disk world0 - set (map disk_path written)
          \<and> (\<forall>name \<in> set written. disk_path name \<notin> disk (snd (handle cfg0 env0 world0 ?rq)))"
    by (rule t [THEN conjunct2, THEN conjunct2, THEN conjunct2, THEN conjunct2])
  then obtain msg written where x: "intake env0 (files ?rq) [] = Inl (msg, written)
          \<and> fst (handle cfg0 env0 world0 ?rq) = Res 400 (Message msg)
          \<and> disk (snd (handle cfg0 env0 world0 ?rq)) = disk world0 - set (map disk_path written)
          \<and> (\<forall>name \<in> set written. disk_path name \<notin> disk (snd (handle cfg0 env0 world0 ?rq)))"
    by (elim exE) (rule that)
  from x [THEN conjunct1] have mw: "msg = ''Passport photo must be JPG, JPEG, or PNG''"
      "written = [''5000-ada.jpg'']"
    unfolding i by simp_all
  from x [THEN conjunct2, THEN conjunct2, THEN conjunct2]
  have c4: "''public/uploads/5000-ada.jpg'' \<notin> disk (snd (handle cfg0 env0 world0 ?rq))"
    by (simp add: mw disk_path_def)
  from mw(1) x [THEN conjunct2, THEN conjunct1] have c1: "fst (handle cfg0 env0 world0 ?rq) = Res 400 (Message ''Passport photo must be JPG, JPEG, or PNG'')"
    by simp
  have "members (snd (handle cfg0 env0 world0 ?rq)) = members world0"
    by (rule t [THEN conjunct2, THEN conjunct1])
  then have c2: "members (snd (handle cfg0 env0 world0 ?rq)) = []"
    by (simp add: world0_def)
  have "disk (snd (handle cfg0 env0 world0 ?rq)) \<subseteq> disk world0"
    by (rule t [THEN conjunct2, THEN conjunct2, THEN conjunct2, THEN conjunct1])
  then have c3: "disk (snd (handle cfg0 env0 world0 ?rq)) = {}"
    by (simp add: world0_def)
  show ?thesis
    by (intro conjI h1 h2 h3 h4 h5 c1 c2 c4 c3)
qed

text \<open>The same photo on a request without a token: the gate answers before the upload.\<close>

lemma bad_photo_without_token:
  "route ((member_rq [pdf_photo])\<lparr>authorization := None\<rparr>) = PostMembers
   \<and> files ((member_rq [pdf_photo])\<lparr>authorization := None\<rparr>) = [pdf_photo]
   \<and> fieldname pdf_photo = ''passportPhotos''
   \<and> mimetype pdf_photo = ''application/pdf''
   \<and> handle cfg0 env0 world0 ((member_rq [pdf_photo])\<lparr>authorization := None\<rparr>)
       = (Res 401 (Message ''Please login''), world0)"
  by (simp add: member_rq_def request0_def pdf_photo_def handle_route with_admin_def with_token_def
      verifyToken_def bearer_def)



section \<open>Creating a member\<close>

text \<open>\<^verbatim>\<open>parseInt\<close> reads a decimal numeral back.\<close>

lemma below_ten: "d < 10 \<Longrightarrow> d \<in> {0, 1, 2, 3, 4, 5, 6, 7, 8, 9 :: nat}"
  by auto

lemma digit_val_digit_char: "d < 10 \<Longrightarrow> digit_val (digit_char d) = Some d"
  by (drule below_ten) (auto simp: digit_char_def digit_val_def)

lemma is_digit_digit_char: "d < 10 \<Longrightarrow> is_digit 10 (digit_char d)"
  by (simp add: is_digit_def digit_val_digit_char)

lemma digit_char_plain:
  "d < 10 \<Longrightarrow> \<not> js_space (digit_char d) \<and> digit_char d \<noteq> CHR ''-'' \<and> digit_char d \<noteq> CHR ''+''
     \<and> digit_char d \<noteq> CHR ''x'' \<and> digit_char d \<noteq> CHR ''X''"
  by (drule below_ten) (auto simp: digit_char_def js_space_def)

lemma digit_char_ascii: "d < 10 \<Longrightarrow> (of_char (digit_char d) :: nat) < 128"
  by (drule below_ten) (auto simp: digit_char_def)

lemma skip_white_ascii:
  assumes "\<not> js_space c" and "(of_char c :: nat) < 128"
  shows "skip_white (c # cs) = c # cs"
proof (cases cs)
  case Nil
  with assms show ?thesis by simp
next
  case (Cons d ds)
  with assms show ?thesis
    by (cases ds) (auto simp: js_space2_def js_space3_def Let_def)
qed

lemma dec_digits: "c \<in> set (dec n) \<Longrightarrow> \<exists>d < 10. c = digit_char d"
proof (induction n arbitrary: c rule: dec.induct)
  case (1 n)
  show ?case
  proof (cases "n < 10")
    case True
    with "1.prems" show ?thesis by (auto simp: dec.simps [of n])
  next
    case False
    with "1.prems" have "c \<in> set (dec (n div 10)) \<or> c = digit_char (n mod 10)"
      by (auto simp: dec.simps [of n])
    then show ?thesis
    proof
      assume "c \<in> set (dec (n div 10))"
      then show ?thesis by (rule "1.IH" [OF False])
    next
      assume "c = digit_char (n mod 10)"
      moreover have "n mod 10 < 10" by simp
      ultimately show ?thesis by blast
    qed
  qed
qed

lemma dec_not_Nil: "dec n \<noteq> []"
  by (simp add: dec.simps [of n])

lemma digits_value_snoc:
  "digits_value r (ds @ [c]) = digits_value r ds * r + (case digit_val c of None \<Rightarrow> 0 | Some d \<Rightarrow> d)"
  by (simp add: digits_value_def)

lemma digits_value_dec: "digits_value 10 (dec n) = n"
proof (induction n rule: dec.induct)
  case (1 n)
  show ?case
  proof (cases "n < 10")
    case True
    then show ?thesis
      by (simp add: dec.simps [of n] digits_value_def digit_val_digit_char)
  next
    case False
    then have "digits_value 10 (dec n) = digits_value 10 (dec (n div 10)) * 10 + n mod 10"
      by (simp add: dec.simps [of n] digits_value_snoc digit_val_digit_char)
    also have "\<dots> = n div 10 * 10 + n mod 10"
      using False by (simp add: "1.IH")
    finally show ?thesis by simp
  qed
qed

lemma takeWhile_dec: "takeWhile (is_digit 10) (dec n) = dec n"
proof -
  have "\<forall>c \<in> set (dec n). is_digit 10 c"
    using dec_digits is_digit_digit_char by blast
  then show ?thesis by (simp add: takeWhile_eq_all_conv)
qed

lemma parse_radix_dec: "parse_radix 10 (dec n) = Some n"
  by (simp add: parse_radix_def takeWhile_dec dec_not_Nil digits_value_dec)

lemma parse_unsigned_dec: "parse_unsigned (dec n) = Some n"
proof (cases "dec n")
  case Nil
  then show ?thesis using dec_not_Nil by blast
next
  case (Cons c cs)
  show ?thesis
  proof (cases cs)
    case Nil
    with Cons show ?thesis
      using parse_radix_dec [of n] by (simp add: parse_unsigned_def)
  next
    case (Cons d rest)
    with \<open>dec n = c # cs\<close> have "d \<in> set (dec n)" by simp
    then obtain k where k: "k < 10" "d = digit_char k"
      using dec_digits by blast
    have "d \<noteq> CHR ''x'' \<and> d \<noteq> CHR ''X''"
      unfolding k(2) using digit_char_plain [OF k(1)] by (elim conjE) (rule conjI)
    with Cons \<open>dec n = c # cs\<close> show ?thesis
      using parse_radix_dec [of n] by (simp add: parse_unsigned_def)
  qed
qed

lemma parseInt_dec: "parseInt (dec n) = Some (to_number (int n))"
proof (cases "dec n")
  case Nil
  then show ?thesis using dec_not_Nil by blast
next
  case (Cons c cs)
  then have "c \<in> set (dec n)" by simp
  then obtain k where k: "k < 10" "c = digit_char k"
    using dec_digits by blast
  have c: "\<not> js_space c \<and> c \<noteq> CHR ''-'' \<and> c \<noteq> CHR ''+''"
    unfolding k(2) using digit_char_plain [OF k(1)] by (elim conjE) (intro conjI)
  have "(of_char c :: nat) < 128"
    unfolding k(2) using k(1) by (rule digit_char_ascii)
  with c have "skip_white (c # cs) = c # cs"
    by (intro skip_white_ascii) simp_all
  with c show ?thesis
    using parse_unsigned_dec [of n] Cons by (simp add: parseInt_def)
qed

text \<open>
  Beyond \<open>2^53\<close> the result is a double the model does not compute, and the no-break
  space U+00A0 (bytes C2 A0) before a numeral is skipped like a blank.
\<close>

lemma parseInt_beyond: "parseInt (dec 9007199254740993) = Some Beyond"
  by (simp add: parseInt_dec to_number_def)

lemma parseInt_no_break_space: "parseInt ([CHR 0xC2, CHR 0xA0] @ ''12'') = Some (Whole 12)"
  by (simp add: parseInt_def js_space_def js_space2_def to_number_def parse_unsigned_def
      parse_radix_def is_digit_def digit_val_def digits_value_def)






lemma next_id_upload [simp]: "next_id (snd (upload e w fs)) = next_id w"
  by (simp add: upload_def split: sum.splits prod.splits)







section \<open>Listing members\<close>

lemma toLowerCase_simps:
  "toLowerCase ''ext'' = ''ext''" "toLowerCase ''EXT 0803'' = ''ext 0803''"
  "toLowerCase ''Bello Musa'' = ''bello musa''" "toLowerCase ''Kano'' = ''kano''"
  "toLowerCase ''musa@farm.ng'' = ''musa@farm.ng''"
  by (simp_all add: toLowerCase_def lower_char_def)

lemma list_members_result:
  assumes "route rq = GetMembers" and "verifyToken cfg e rq = Inr (uid, ''admin'')" and "db_ok e"
  shows "handle cfg e w rq =
     (Res 200 (MembersJ (if falsy (query_search rq) then members w
                          else filter (member_matches (toLowerCase (str (query_search rq)))) (members w))),
      logged MemberFind w)"
  using assms
  by (simp add: handle_route gate_admin get_members_def Member_find_def toLowerCase_def falsy_def
      str_def split: option.splits)

text \<open>
  C6. The claim asks for the members whose name, location, phone or contact contains the
  query without regard to case. The handler lowers the query, the name, the location and
  the contact, but tests \<^verbatim>\<open>member.phone.includes(searchQuery)\<close> on the phone as stored.
  Here the only member has the phone \<^verbatim>\<open>EXT 0803\<close>, which contains the query \<^verbatim>\<open>ext\<close>
  without regard to case, and the admin's listing with that query is empty.
\<close>

theorem phone_search_case_sensitive:
  "route ext_rq = GetMembers
   \<and> verifyToken cfg0 env0 ext_rq = Inr (2, ''admin'')
   \<and> query_search ext_rq = Some ''ext''
   \<and> members world_ext = [member_ext]
   \<and> phone member_ext = ''EXT 0803''
   \<and> includes_str (toLowerCase (phone member_ext)) (toLowerCase ''ext'')
   \<and> handle cfg0 env0 world_ext ext_rq = (Res 200 (MembersJ []), logged MemberFind world_ext)"
proof -
  have r: "route ext_rq = GetMembers" by (simp add: ext_rq_def request0_def)
  have a: "verifyToken cfg0 env0 ext_rq = Inr (2, ''admin'')"
    by (rule verifyToken_admin_token) (simp_all add: ext_rq_def request0_def env0_def)
  have q: "query_search ext_rq = Some ''ext''" by (simp add: ext_rq_def request0_def)
  have m: "members world_ext = [member_ext]" by (simp add: world_ext_def)
  have p: "phone member_ext = ''EXT 0803''" by (simp add: member_ext_def)
  have i: "includes_str (toLowerCase (phone member_ext)) (toLowerCase ''ext'')"
    by (simp add: p toLowerCase_simps)
  have n: "\<not> member_matches ''ext'' member_ext"
    by (simp add: member_matches_def member_ext_def toLowerCase_simps)
  have g: "get_members env0 world_ext ext_rq = (Res 200 (MembersJ []), logged MemberFind world_ext)"
    by (simp add: get_members_def q falsy_def str_def toLowerCase_simps Member_find_def m n env0_def)
  have h: "handle cfg0 env0 world_ext ext_rq = (Res 200 (MembersJ []), logged MemberFind world_ext)"
    by (simp add: handle_route(4) [OF r] gate_admin [OF a] g)
  show ?thesis
    by (intro conjI r a q m p i h)
qed

section \<open>Deleting news\<close>

lemma disk_unlink_if_exists:
  "disk (unlink_if_exists url w) = (if falsy url then disk w else disk w - {''public'' @ str url})"
  by (auto simp: unlink_if_exists_def Let_def)

lemma news_items_unlink_if_exists [simp]: "news_items (unlink_if_exists url w) = news_items w"
  by (simp add: unlink_if_exists_def Let_def)

lemma oplog_unlink_if_exists [simp]: "oplog (unlink_if_exists url w) = oplog w"
  by (simp add: unlink_if_exists_def Let_def)

lemma delete_news_found:
  assumes "db_ok e" and "params_id rq = Some i" and "find (\<lambda>n. n_id n = i) (news_items w) = Some n"
  shows "delete_news e w rq =
     (Res 200 (Message ''News deleted successfully''),
      logged NewsFindByIdAndDelete
        ((unlink_if_exists (videoUrl n) (unlink_if_exists (imageUrl n) (logged NewsFindById w)))
           \<lparr>news_items := filter (\<lambda>m. n_id m \<noteq> i) (news_items w)\<rparr>))"
  using assms
  by (simp add: delete_news_def News_findById_def News_findByIdAndDelete_def Let_def logged_def)

lemma delete_news_missing:
  assumes "db_ok e" and "params_id rq = Some i" and "find (\<lambda>n. n_id n = i) (news_items w) = None"
  shows "delete_news e w rq = (Res 404 (Message ''News not found''), logged NewsFindById w)"
  using assms
  by (simp add: delete_news_def News_findById_def)

lemma get_news_listing:
  "db_ok e \<Longrightarrow> get_news e w = (Res 200 (NewsJ (sort_key (\<lambda>n. - int (createdAt n)) (news_items w))), logged NewsFind w)"
  by (simp add: get_news_def News_find_sorted_def)

lemma delete_rq_simps:
  "route (delete_rq i) = DeleteNews" "params_id (delete_rq i) = Some i"
  "authorization (delete_rq i) = bearer_of admin_token"
  by (simp_all add: delete_rq_def request0_def)

lemma delete_rq_admin: "verifyToken cfg0 env0 (delete_rq i) = Inr (2, ''admin'')"
  by (rule verifyToken_admin_token) (simp_all add: delete_rq_simps env0_def)

lemma db_ok_env0: "db_ok env0"
  by (simp add: env0_def)

text \<open>Deleting by an id that casts: the item is found and removed with its files, or 404.\<close>

lemma delete_news_castable:
  assumes "route rq = DeleteNews"
    and "verifyToken cfg e rq = Inr (uid, ''admin'')"
    and "db_ok e"
    and "params_id rq = Some i"
  shows "(\<forall>n. find (\<lambda>n. n_id n = i) (news_items w) = Some n \<longrightarrow>
            fst (handle cfg e w rq) = Res 200 (Message ''News deleted successfully'')
          \<and> (\<not> falsy (imageUrl n) \<longrightarrow> ''public'' @ str (imageUrl n) \<notin> disk (snd (handle cfg e w rq)))
          \<and> (\<not> falsy (videoUrl n) \<longrightarrow> ''public'' @ str (videoUrl n) \<notin> disk (snd (handle cfg e w rq)))
          \<and> disk (snd (handle cfg e w rq)) \<subseteq> disk w
          \<and> news_items (snd (handle cfg e w rq)) = filter (\<lambda>m. n_id m \<noteq> i) (news_items w)
          \<and> (\<forall>e2 (rq2::request). db_ok e2 \<and> route rq2 = GetNews \<longrightarrow>
                (\<exists>ns. fst (handle cfg e2 (snd (handle cfg e w rq)) rq2) = Res 200 (NewsJ ns)
                      \<and> (\<forall>m \<in> set ns. n_id m \<noteq> i)
                      \<and> set ns = {m \<in> set (news_items w). n_id m \<noteq> i})))
    \<and> (find (\<lambda>n. n_id n = i) (news_items w) = None \<longrightarrow>
            fst (handle cfg e w rq) = Res 404 (Message ''News not found'')
          \<and> disk (snd (handle cfg e w rq)) = disk w
          \<and> news_items (snd (handle cfg e w rq)) = news_items w)"
proof -
  have h: "handle cfg e w rq = delete_news e w rq"
    using assms(1,2) by (simp add: handle_route gate_admin)
  have found: "fst (handle cfg e w rq) = Res 200 (Message ''News deleted successfully'')
          \<and> (\<not> falsy (imageUrl n) \<longrightarrow> ''public'' @ str (imageUrl n) \<notin> disk (snd (handle cfg e w rq)))
          \<and> (\<not> falsy (videoUrl n) \<longrightarrow> ''public'' @ str (videoUrl n) \<notin> disk (snd (handle cfg e w rq)))
          \<and> disk (snd (handle cfg e w rq)) \<subseteq> disk w
          \<and> news_items (snd (handle cfg e w rq)) = filter (\<lambda>m. n_id m \<noteq> i) (news_items w)
          \<and> (\<forall>e2 (rq2::request). db_ok e2 \<and> route rq2 = GetNews \<longrightarrow>
                (\<exists>ns. fst (handle cfg e2 (snd (handle cfg e w rq)) rq2) = Res 200 (NewsJ ns)
                      \<and> (\<forall>m \<in> set ns. n_id m \<noteq> i)
                      \<and> set ns = {m \<in> set (news_items w). n_id m \<noteq> i}))"
    if f: "find (\<lambda>n. n_id n = i) (news_items w) = Some n" for n
  proof -
    let ?w' = "snd (handle cfg e w rq)"
    have d: "handle cfg e w rq =
     (Res 200 (Message ''News deleted successfully''),
      logged NewsFindByIdAndDelete
        ((unlink_if_exists (videoUrl n) (unlink_if_exists (imageUrl n) (logged NewsFindById w)))
           \<lparr>news_items := filter (\<lambda>m. n_id m \<noteq> i) (news_items w)\<rparr>))"
      unfolding h using assms(3,4) f by (rule delete_news_found)
    have disk: "disk ?w' = disk (unlink_if_exists (videoUrl n) (unlink_if_exists (imageUrl n) (logged NewsFindById w)))"
      by (simp add: d logged_def)
    have items: "news_items ?w' = filter (\<lambda>m. n_id m \<noteq> i) (news_items w)"
      by (simp add: d logged_def)
    have listing: "\<exists>ns. fst (handle cfg e2 ?w' rq2) = Res 200 (NewsJ ns)
                      \<and> (\<forall>m \<in> set ns. n_id m \<noteq> i)
                      \<and> set ns = {m \<in> set (news_items w). n_id m \<noteq> i}"
      if "db_ok e2 \<and> route rq2 = GetNews" for e2 and rq2 :: request
    proof -
      from that have "handle cfg e2 ?w' rq2
          = (Res 200 (NewsJ (sort_key (\<lambda>n. - int (createdAt n)) (news_items ?w'))), logged NewsFind ?w')"
        by (simp add: handle_route get_news_listing)
      then show ?thesis
        by (intro exI [of _ "sort_key (\<lambda>n. - int (createdAt n)) (news_items ?w')"]) (auto simp: items)
    qed
    show ?thesis
      using listing by (auto simp: d disk_unlink_if_exists logged_def)
  qed
  have missing: "fst (handle cfg e w rq) = Res 404 (Message ''News not found'')
          \<and> disk (snd (handle cfg e w rq)) = disk w
          \<and> news_items (snd (handle cfg e w rq)) = news_items w"
    if "find (\<lambda>n. n_id n = i) (news_items w) = None"
    unfolding h using delete_news_missing [OF assms(3,4) that] by (simp add: logged_def)
  show ?thesis
    using found missing by blast
qed

lemma delete_news_malformed:
  "params_id rq = None \<Longrightarrow> delete_news e w rq = (Res 500 (Message ''Error deleting news''), w)"
  by (simp add: delete_news_def News_findById_def)

text \<open>
  C7, as amended. For a delete-news request that passed both gates, with the database
  answering. When the path id is an object id: if a News item has the id, the answer is
  200, the files \<^verbatim>\<open>public<imageUrl>\<close> and \<^verbatim>\<open>public<videoUrl>\<close> of the item (for each
  URL that is set and non-empty) are no longer on disk and no file was added, the
  collection has lost every document with that id and nothing else, and a listing right
  after (the database answering) returns exactly the other items; if no item has the id,
  the answer is 404 and neither the disk nor the collection changed. When the path id is
  no object id, the lookup throws a cast error into the handler's \<^verbatim>\<open>catch\<close>: the answer is
  500 and the world is unchanged. (The claim as stated, 404 for every id that no item has,
  fails for such an id.)
\<close>

theorem delete_news_removes:
  assumes "route rq = DeleteNews"
    and "verifyToken cfg e rq = Inr (uid, ''admin'')"
    and "db_ok e"
  shows "(\<forall>i. params_id rq = Some i \<longrightarrow>
          (\<forall>n. find (\<lambda>n. n_id n = i) (news_items w) = Some n \<longrightarrow>
              fst (handle cfg e w rq) = Res 200 (Message ''News deleted successfully'')
            \<and> (\<not> falsy (imageUrl n) \<longrightarrow> ''public'' @ str (imageUrl n) \<notin> disk (snd (handle cfg e w rq)))
            \<and> (\<not> falsy (videoUrl n) \<longrightarrow> ''public'' @ str (videoUrl n) \<notin> disk (snd (handle cfg e w rq)))
            \<and> disk (snd (handle cfg e w rq)) \<subseteq> disk w
            \<and> news_items (snd (handle cfg e w rq)) = filter (\<lambda>m. n_id m \<noteq> i) (news_items w)
            \<and> (\<forall>e2 (rq2::request). db_ok e2 \<and> route rq2 = GetNews \<longrightarrow>
                  (\<exists>ns. fst (handle cfg e2 (snd (handle cfg e w rq)) rq2) = Res 200 (NewsJ ns)
                        \<and> (\<forall>m \<in> set ns. n_id m \<noteq> i)
                        \<and> set ns = {m \<in> set (news_items w). n_id m \<noteq> i})))
          \<and> (find (\<lambda>n. n_id n = i) (news_items w) = None \<longrightarrow>
              fst (handle cfg e w rq) = Res 404 (Message ''News not found'')
            \<and> disk (snd (handle cfg e w rq)) = disk w
            \<and> news_items (snd (handle cfg e w rq)) = news_items w))
    \<and> (params_id rq = None \<longrightarrow>
          handle cfg e w rq = (Res 500 (Message ''Error deleting news''), w))"
proof (rule conjI)
  show "params_id rq = None \<longrightarrow>
          handle cfg e w rq = (Res 500 (Message ''Error deleting news''), w)"
    using assms(1,2) by (simp add: handle_route gate_admin delete_news_malformed)
qed (intro allI impI, rule delete_news_castable [OF assms])

theorem delete_news_removes_witness:
  "route (delete_rq 0) = DeleteNews
   \<and> verifyToken cfg0 env0 (delete_rq 0) = Inr (2, ''admin'')
   \<and> db_ok env0
   \<and> params_id (delete_rq 0) = Some 0
   \<and> find (\<lambda>n. n_id n = 0) (news_items world_news) = Some harvest_item
   \<and> ''public/uploads/4000-yam.jpg'' \<in> disk world_news
   \<and> ''public/uploads/4000-yam.mp4'' \<in> disk world_news
   \<and> fst (handle cfg0 env0 world_news (delete_rq 0)) = Res 200 (Message ''News deleted successfully'')
   \<and> ''public/uploads/4000-yam.jpg'' \<notin> disk (snd (handle cfg0 env0 world_news (delete_rq 0)))
   \<and> ''public/uploads/4000-yam.mp4'' \<notin> disk (snd (handle cfg0 env0 world_news (delete_rq 0)))
   \<and> news_items (snd (handle cfg0 env0 world_news (delete_rq 0))) = [fair_item]
   \<and> (\<exists>ns. fst (handle cfg0 env0 (snd (handle cfg0 env0 world_news (delete_rq 0))) (request0 GetNews))
               = Res 200 (NewsJ ns)
           \<and> set ns = {fair_item})
   \<and> find (\<lambda>n. n_id n = 7) (news_items world_news) = None
   \<and> fst (handle cfg0 env0 world_news (delete_rq 7)) = Res 404 (Message ''News not found'')
   \<and> disk (snd (handle cfg0 env0 world_news (delete_rq 7))) = disk world_news
   \<and> news_items (snd (handle cfg0 env0 world_news (delete_rq 7))) = news_items world_news
   \<and> params_id delete_malformed_rq = None
   \<and> handle cfg0 env0 world_news delete_malformed_rq
       = (Res 500 (Message ''Error deleting news''), world_news)"
proof -
  let ?w' = "snd (handle cfg0 env0 world_news (delete_rq 0))"
  have f: "find (\<lambda>n. n_id n = 0) (news_items world_news) = Some harvest_item"
    by (simp add: world_news_def harvest_item_def)
  have g: "find (\<lambda>n. n_id n = 7) (news_items world_news) = None"
    by (simp add: world_news_def harvest_item_def fair_item_def)
  have d: "''public/uploads/4000-yam.jpg'' \<in> disk world_news"
    "''public/uploads/4000-yam.mp4'' \<in> disk world_news"
    by (simp_all add: world_news_def)
  note t = delete_news_removes [OF delete_rq_simps(1) delete_rq_admin db_ok_env0, where w = world_news,
      THEN conjunct1, THEN spec, THEN mp, OF delete_rq_simps(2)]
  note a = t [of 0, THEN conjunct1, THEN spec, THEN mp, OF f]
  note b = t [of 7, THEN conjunct2, THEN mp, OF g]
  have m1: "route delete_malformed_rq = DeleteNews" "params_id delete_malformed_rq = None"
    by (simp_all add: delete_malformed_rq_def request0_def)
  have m2: "verifyToken cfg0 env0 delete_malformed_rq = Inr (2, ''admin'')"
    by (rule verifyToken_admin_token) (simp_all add: delete_malformed_rq_def request0_def env0_def)
  note c = delete_news_removes [OF m1(1) m2 db_ok_env0, where w = world_news,
      THEN conjunct2, THEN mp, OF m1(2)]
  have a1: "fst (handle cfg0 env0 world_news (delete_rq 0)) = Res 200 (Message ''News deleted successfully'')"
    by (rule a [THEN conjunct1])
  have "\<not> falsy (imageUrl harvest_item) \<longrightarrow> ''public'' @ str (imageUrl harvest_item) \<notin> disk ?w'"
    by (rule a [THEN conjunct2, THEN conjunct1])
  then have a2: "''public/uploads/4000-yam.jpg'' \<notin> disk ?w'"
    by (simp add: harvest_item_def falsy_def str_def)
  have "\<not> falsy (videoUrl harvest_item) \<longrightarrow> ''public'' @ str (videoUrl harvest_item) \<notin> disk ?w'"
    by (rule a [THEN conjunct2, THEN conjunct2, THEN conjunct1])
  then have a3: "''public/uploads/4000-yam.mp4'' \<notin> disk ?w'"
    by (simp add: harvest_item_def falsy_def str_def)
  have "news_items ?w' = filter (\<lambda>m. n_id m \<noteq> 0) (news_items world_news)"
    by (rule a [THEN conjunct2, THEN conjunct2, THEN conjunct2, THEN conjunct2, THEN conjunct1])
  then have a4: "news_items ?w' = [fair_item]"
    by (simp add: world_news_def harvest_item_def fair_item_def)
  have l: "db_ok env0 \<and> route (request0 GetNews) = GetNews"
    by (simp add: env0_def request0_def)
  have "\<exists>ns. fst (handle cfg0 env0 ?w' (request0 GetNews)) = Res 200 (NewsJ ns)
                      \<and> (\<forall>m \<in> set ns. n_id m \<noteq> 0)
                      \<and> set ns = {m \<in> set (news_items world_news). n_id m \<noteq> 0}"
    by (rule a [THEN conjunct2, THEN conjunct2, THEN conjunct2, THEN conjunct2, THEN conjunct2,
          THEN spec, THEN spec, THEN mp, OF l])
  then obtain ns where ns: "fst (handle cfg0 env0 ?w' (request0 GetNews)) = Res 200 (NewsJ ns)
                      \<and> (\<forall>m \<in> set ns. n_id m \<noteq> 0)
                      \<and> set ns = {m \<in> set (news_items world_news). n_id m \<noteq> 0}"
    by (elim exE) (rule that)
  have e: "{m \<in> set (news_items world_news). n_id m \<noteq> 0} = {fair_item}"
    by (auto simp: world_news_def harvest_item_def fair_item_def)
  have s: "set ns = {fair_item}"
    using ns [THEN conjunct2, THEN conjunct2] e by (rule trans)
  have a5: "\<exists>ns. fst (handle cfg0 env0 ?w' (request0 GetNews)) = Res 200 (NewsJ ns) \<and> set ns = {fair_item}"
    by (rule exI [of _ ns]) (rule conjI [OF ns [THEN conjunct1] s])
  show ?thesis
    by (intro conjI delete_rq_simps delete_rq_admin db_ok_env0 f g d a1 a2 a3 a4 a5
        b [THEN conjunct1] b [THEN conjunct2, THEN conjunct1] b [THEN conjunct2, THEN conjunct2]
        m1(2) c)
qed

theorem delete_news_malformed_id_counterexample:
  "route delete_malformed_rq = DeleteNews
   \<and> verifyToken cfg0 env0 delete_malformed_rq = Inr (2, ''admin'')
   \<and> db_ok env0
   \<and> params_id delete_malformed_rq = None
   \<and> handle cfg0 env0 world_news delete_malformed_rq
       = (Res 500 (Message ''Error deleting news''), world_news)
   \<and> fst (handle cfg0 env0 world_news delete_malformed_rq) \<noteq> Res 404 (Message ''News not found'')"
proof -
  have r: "route delete_malformed_rq = DeleteNews" "params_id delete_malformed_rq = None"
    by (simp_all add: delete_malformed_rq_def request0_def)
  have v: "verifyToken cfg0 env0 delete_malformed_rq = Inr (2, ''admin'')"
    by (rule verifyToken_admin_token) (simp_all add: delete_malformed_rq_def request0_def env0_def)
  have h: "handle cfg0 env0 world_news delete_malformed_rq
       = (Res 500 (Message ''Error deleting news''), world_news)"
    by (simp add: handle_route(10) [OF r(1)] gate_admin [OF v] delete_news_malformed [OF r(2)])
  have n: "fst (handle cfg0 env0 world_news delete_malformed_rq) \<noteq> Res 404 (Message ''News not found'')"
    by (simp add: h)
  show ?thesis
    by (intro conjI r v db_ok_env0 h n)
qed

section \<open>Contact submissions\<close>

text \<open>
  C8. For a contact submission whose name, email and message are all present and
  non-empty, with the database answering: the answer has status 201 whether or not the
  relay accepts the mail, and the Contact is appended to the collection and is still
  there after the relay's outcome. When the relay accepts, the message is
  \<^verbatim>\<open>Message sent successfully\<close> and the mail is in the outbox; when it throws, the message
  is \<^verbatim>\<open>Message saved, but email notification failed\<close> and no mail went out.
\<close>

theorem contact_saved_whatever_relay:
  assumes "route rq = PostContact"
    and "\<not> falsy (body rq ''name'')" and "\<not> falsy (body rq ''email'')"
    and "\<not> falsy (body rq ''message'')"
    and "db_ok e"
  shows "(\<exists>msg. fst (handle cfg e w rq) = Res 201 (Message msg))
    \<and> contacts (snd (handle cfg e w rq))
        = contacts w @ [\<lparr>c_id = next_id w, c_name = str (body rq ''name''),
                          c_email = str (body rq ''email''), c_message = str (body rq ''message''),
                          c_at = now e\<rparr>]
    \<and> (mail_ok e \<longrightarrow>
          fst (handle cfg e w rq) = Res 201 (Message ''Message sent successfully'')
        \<and> outbox (snd (handle cfg e w rq))
            = outbox w @ [mailOptions cfg (str (body rq ''name'')) (str (body rq ''email''))
                            (str (body rq ''message''))])
    \<and> (\<not> mail_ok e \<longrightarrow>
          fst (handle cfg e w rq) = Res 201 (Message ''Message saved, but email notification failed'')
        \<and> outbox (snd (handle cfg e w rq)) = outbox w)"
  using assms
  by (simp add: handle_route post_contact_def Contact_save_def sendMail_def Let_def logged_def)

theorem contact_saved_whatever_relay_witness:
  "route contact_rq = PostContact
   \<and> \<not> falsy (body contact_rq ''name'') \<and> \<not> falsy (body contact_rq ''email'')
   \<and> \<not> falsy (body contact_rq ''message'')
   \<and> db_ok env_relay_down \<and> \<not> mail_ok env_relay_down
   \<and> fst (handle cfg0 env_relay_down world0 contact_rq)
       = Res 201 (Message ''Message saved, but email notification failed'')
   \<and> contacts (snd (handle cfg0 env_relay_down world0 contact_rq))
       = [\<lparr>c_id = 0, c_name = ''A'', c_email = ''a@b.com'', c_message = ''hi'', c_at = 5000\<rparr>]
   \<and> db_ok env0 \<and> mail_ok env0
   \<and> fst (handle cfg0 env0 world0 contact_rq) = Res 201 (Message ''Message sent successfully'')
   \<and> contacts (snd (handle cfg0 env0 world0 contact_rq))
       = [\<lparr>c_id = 0, c_name = ''A'', c_email = ''a@b.com'', c_message = ''hi'', c_at = 5000\<rparr>]"
proof -
  have r: "route contact_rq = PostContact" by (simp add: contact_rq_def request0_def)
  have b: "body contact_rq ''name'' = Some ''A''" "body contact_rq ''email'' = Some ''a@b.com''"
    "body contact_rq ''message'' = Some ''hi''"
    by (simp_all add: contact_rq_def request0_def contact_form_def)
  have p: "\<not> falsy (body contact_rq ''name'')" "\<not> falsy (body contact_rq ''email'')"
    "\<not> falsy (body contact_rq ''message'')"
    by (simp_all add: b falsy_def)
  have down: "db_ok env_relay_down" "\<not> mail_ok env_relay_down"
    by (simp_all add: env_relay_down_def env0_def)
  have up: "db_ok env0" "mail_ok env0"
    by (simp_all add: env0_def)
  note t = contact_saved_whatever_relay [OF r p down(1), where cfg = cfg0 and w = world0]
  note u = contact_saved_whatever_relay [OF r p up(1), where cfg = cfg0 and w = world0]
  have t1: "fst (handle cfg0 env_relay_down world0 contact_rq)
       = Res 201 (Message ''Message saved, but email notification failed'')"
    by (rule t [THEN conjunct2, THEN conjunct2, THEN conjunct2, THEN mp, OF down(2), THEN conjunct1])
  have t2: "contacts (snd (handle cfg0 env_relay_down world0 contact_rq))
       = [\<lparr>c_id = 0, c_name = ''A'', c_email = ''a@b.com'', c_message = ''hi'', c_at = 5000\<rparr>]"
    using t [THEN conjunct2, THEN conjunct1]
    by (simp add: b str_def world0_def env_relay_down_def env0_def)
  have u1: "fst (handle cfg0 env0 world0 contact_rq) = Res 201 (Message ''Message sent successfully'')"
    by (rule u [THEN conjunct2, THEN conjunct2, THEN conjunct1, THEN mp, OF up(2), THEN conjunct1])
  have u2: "contacts (snd (handle cfg0 env0 world0 contact_rq))
       = [\<lparr>c_id = 0, c_name = ''A'', c_email = ''a@b.com'', c_message = ''hi'', c_at = 5000\<rparr>]"
    using u [THEN conjunct2, THEN conjunct1]
    by (simp add: b str_def world0_def env0_def)
  show ?thesis
    by (intro conjI r p down up t1 t2 u1 u2)
qed

end
